theory Spec2Isabelle
  imports Main
begin

section \<open>Values, failures and deferred computations\<close>

text \<open>
  The library is written in TypeScript on top of a deferred-computation runtime, a
  codec library and an HTTP platform. Values that the source types as \<open>any\<close> or
  \<open>unknown\<close> (call-time parameters, JSON, decoded values, error values) are
  values of one universal type.
\<close>

datatype jsval =
    JUndefined
  | JNull
  | JBool bool
  | JNumber int
  | JString string
  | JArray "jsval list"
  | JObject "(string \<times> jsval) list"

text \<open>
  The failure channel of a computation is untyped at run time: it carries the
  failures of the codec library, of the platform, and any value that a maker fails
  with (\<open>Effect.fail(v)\<close> is \<open>Inl (Fail v)\<close>). An exception thrown while a
  computation runs makes it die (\<open>Die\<close>, with the exception's message).
\<close>

datatype failure =
    ParseError string
  | ResponseError string
  | HttpBodyError string
  | Fail jsval
  | Die string

text \<open>
  What a run of a callable route function does besides returning: the author-supplied
  functions it calls, the makers it consults on a response, the requests it hands to
  the transport. The type parameter is the type of requests.
\<close>

datatype 'r event =
    is_UrlFnCalled: UrlFnCalled jsval
  | is_HeadersFnCalled: HeadersFnCalled jsval
  | is_InputFnCalled: InputFnCalled jsval
  | is_Executed: Executed 'r
  | is_ErrorMakerConsulted: ErrorMakerConsulted
  | is_OutputMakerInvoked: OutputMakerInvoked

text \<open>
  An \<open>Effect\<close> is modelled by what running it yields: the events of the run, in
  order, and its exit, \<open>Inl\<close> a failure or \<open>Inr\<close> the success value.
\<close>

type_synonym ('r, 'a) Effect = "'r event list \<times> (failure + 'a)"

definition succeed :: "'a \<Rightarrow> ('r, 'a) Effect" where
  "succeed a = ([], Inr a)"

definition fail :: "failure \<Rightarrow> ('r, 'a) Effect" where
  "fail e = ([], Inl e)"

definition flatMap :: "('r, 'a) Effect \<Rightarrow> ('a \<Rightarrow> ('r, 'b) Effect) \<Rightarrow> ('r, 'b) Effect" where
  "flatMap m f =
     (case m of
        (t, Inl e) \<Rightarrow> (t, Inl e)
      | (t, Inr a) \<Rightarrow> (case f a of (t', r) \<Rightarrow> (t @ t', r)))"

text \<open>An effect that an author-supplied function returned, run without events of its own.\<close>

definition fromExit :: "(failure + 'a) \<Rightarrow> ('r, 'a) Effect" where
  "fromExit x = ([], x)"

definition emit :: "'r event \<Rightarrow> ('r, unit) Effect" where
  "emit ev = ([ev], Inr ())"

section \<open>The platform: header sets, bodies, requests, responses, transports\<close>

text \<open>
  A header set of the platform is a dictionary whose keys are lower-case header
  names. \<open>toLowerCase\<close> is JavaScript's on the ASCII letters, which is all a header
  name contains.
\<close>

type_synonym Headers = "string \<rightharpoonup> string"

definition toLowerCase :: "string \<Rightarrow> string" where
  "toLowerCase s =
     map (\<lambda>c. case map_of (zip ''ABCDEFGHIJKLMNOPQRSTUVWXYZ'' ''abcdefghijklmnopqrstuvwxyz'') c of
                 Some l \<Rightarrow> l
               | None \<Rightarrow> c) s"

definition Headers_empty :: Headers where
  "Headers_empty = Map.empty"

text \<open>Modelled from the spec: the platform's \<open>Headers.get\<close>, a case-insensitive lookup.\<close>

definition Headers_get :: "string \<Rightarrow> Headers \<Rightarrow> string option" where
  "Headers_get key self = self (toLowerCase key)"

text \<open>Modelled from the spec: the platform's \<open>Headers.set\<close>, on a copy of the header set.\<close>

definition Headers_set :: "string \<Rightarrow> string \<Rightarrow> Headers \<Rightarrow> Headers" where
  "Headers_set key v self = self(toLowerCase key \<mapsto> v)"

text \<open>
  A request body is the JSON text of a value, with content type
  \<open>application/json\<close> (\<open>JsonBody v\<close> stands for the bytes of
  \<open>JSON.stringify(v)\<close>), or any other payload, given by its content type and content.
\<close>

datatype HttpBody =
    JsonBody jsval
  | RawBody (contentType: string) (content: string)

text \<open>
  A request: the method, the URL, the header set and the body if one was set.
\<close>

record ('u, 'h) HttpClientRequest =
  req_method :: string
  req_url :: 'u
  req_headers :: 'h
  req_body :: "HttpBody option"

text \<open>Modelled from the spec: request assembly by the platform's
  \<open>HttpClientRequest.make\<close>, \<open>setBody\<close> and \<open>setHeaders\<close>. The request is
  built for the method and URL, the computed body is attached when there is one
  (\<open>None\<close> is \<open>undefined\<close>, the only falsy body), and the computed header set
  becomes the request's complete header set.\<close>

definition assemble :: "string \<Rightarrow> 'u \<Rightarrow> HttpBody option \<Rightarrow> 'h \<Rightarrow> ('u, 'h) HttpClientRequest" where
  "assemble m u b h = \<lparr>req_method = m, req_url = u, req_headers = h, req_body = b\<rparr>"

text \<open>Modelled from the spec: \<open>HttpClientRequest.setUrl\<close> with a string.\<close>

definition setUrl :: "'u \<Rightarrow> ('u, 'h) HttpClientRequest \<Rightarrow> ('u, 'h) HttpClientRequest" where
  "setUrl u req = req\<lparr>req_url := u\<rparr>"

text \<open>Modelled from the spec: \<open>HttpClientRequest.bearerToken\<close> adds the header
  \<open>Authorization: Bearer <token>\<close>.\<close>

definition bearerToken :: "string \<Rightarrow> ('u, Headers) HttpClientRequest \<Rightarrow> ('u, Headers) HttpClientRequest" where
  "bearerToken token req =
     req\<lparr>req_headers := Headers_set ''Authorization'' (''Bearer '' @ token) (req_headers req)\<rparr>"

text \<open>
  A response: the status code and what reading the body as JSON yields (the lazy
  \<open>json\<close> accessor can fail).
\<close>

record HttpClientResponse =
  status :: int
  json :: "failure + jsval"

text \<open>The transport capability: executing a request fails or yields a response.\<close>

type_synonym ('u, 'h) HttpClient = "('u, 'h) HttpClientRequest \<Rightarrow> failure + HttpClientResponse"

definition execute ::
  "('u, 'h) HttpClient \<Rightarrow> ('u, 'h) HttpClientRequest \<Rightarrow>
   (('u, 'h) HttpClientRequest, HttpClientResponse) Effect" where
  "execute client request = ([Executed request], client request)"

text \<open>Modelled from the spec: \<open>HttpClient.mapRequestInput\<close> transforms every request
  before the wrapped transport sees it.\<close>

definition mapRequestInput ::
  "(('u, 'h) HttpClientRequest \<Rightarrow> ('u, 'h) HttpClientRequest) \<Rightarrow> ('u, 'h) HttpClient \<Rightarrow> ('u, 'h) HttpClient" where
  "mapRequestInput f client = (\<lambda>req. client (f req))"

text \<open>Modelled from the spec: \<open>HttpClient.filterStatusOk\<close> turns every response whose
  status is outside 200-299 into a generic transport-level failure.\<close>

definition HttpClient_filterStatusOk :: "('u, 'h) HttpClient \<Rightarrow> ('u, 'h) HttpClient" where
  "HttpClient_filterStatusOk client =
     (\<lambda>req. case client req of
               Inl e \<Rightarrow> Inl e
             | Inr res \<Rightarrow>
                 if 200 \<le> status res \<and> status res < 300 then Inr res
                 else Inl (ResponseError ''StatusCode''))"

text \<open>
  A codec (\<open>Schema.Schema<any>\<close>) is given by its two directions.
  \<open>Schema.decodeUnknown(schema)(json)\<close> is \<open>decodeUnknown schema json\<close> and
  \<open>Schema.encode(schema)(v)\<close> is \<open>encode schema v\<close>.
\<close>

record Schema =
  decodeUnknown :: "jsval \<Rightarrow> failure + jsval"
  encode :: "jsval \<Rightarrow> failure + jsval"

text \<open>
  \<open>HttpBody.json\<close> is a parameter of the model. The source writes
  \<open>Schema.encode(schema)(body).pipe(HttpBody.json)\<close>, and \<open>x.pipe(f)\<close> is
  \<open>f(x)\<close>: the platform function receives the computation that the encoder
  returned. The definitions below take the platform function as an argument;
  \<open>jsonBody\<close> is the platform's function.
\<close>

type_synonym HttpBody_json = "(failure + jsval) \<Rightarrow> (failure + HttpBody)"

text \<open>
  Modelled from the spec: the platform's \<open>HttpBody.json\<close> serialises the value it is
  handed into a JSON payload. In \<open>make\<close> that value is the \<open>Either\<close> that
  \<open>Schema.encode\<close> returned, \<open>Right\<close> the encoded value or \<open>Left\<close> the codec's
  failure, and the runtime serialises an \<open>Either\<close> as an object with the fields
  \<open>_id\<close>, \<open>_tag\<close> and \<open>right\<close> or \<open>left\<close>, and a parse failure as an object with
  \<open>_id\<close> and \<open>message\<close>. So \<open>HttpBody.json\<close> yields a body for what \<open>make\<close> hands
  it whether the codec accepted the value or not. A codec fails with a parse failure
  only; the other cases of \<open>failure_toJSON\<close> make it total.
\<close>

definition failure_toJSON :: "failure \<Rightarrow> jsval" where
  "failure_toJSON e =
     (case e of
        ParseError m \<Rightarrow> JObject [(''_id'', JString ''ParseError''), (''message'', JString m)]
      | ResponseError m \<Rightarrow> JObject [(''_tag'', JString ''ResponseError''), (''message'', JString m)]
      | HttpBodyError m \<Rightarrow> JObject [(''_tag'', JString ''HttpBodyError''), (''message'', JString m)]
      | Fail v \<Rightarrow> v
      | Die m \<Rightarrow> JObject [(''message'', JString m)])"

definition Either_toJSON :: "(failure + jsval) \<Rightarrow> jsval" where
  "Either_toJSON x =
     (case x of
        Inr v \<Rightarrow>
          JObject [(''_id'', JString ''Either''), (''_tag'', JString ''Right''), (''right'', v)]
      | Inl e \<Rightarrow>
          JObject [(''_id'', JString ''Either''), (''_tag'', JString ''Left''),
                   (''left'', failure_toJSON e)])"

definition jsonBody :: HttpBody_json where
  "jsonBody x = Inr (JsonBody (Either_toJSON x))"

section \<open>The modular tree: makers and routes\<close>

text \<open>The tagged variants of \<open>url.ts\<close>, \<open>headers.ts\<close>, \<open>input.ts\<close>, \<open>output.ts\<close>
  and \<open>error.ts\<close>. The error function is plain and synchronous; the other functions
  return a computation, given here by its exit.\<close>

datatype Url =
    Url_Value string
  | Url_Fn "jsval \<Rightarrow> string"

datatype HeadersMaker =
    Headers_Value Headers
  | Headers_Fn "jsval \<Rightarrow> failure + Headers"

datatype Input =
    is_Input_Value: Input_Value Schema jsval
  | is_Input_Schema: Input_Schema Schema
  | is_Input_Fn: Input_Fn "jsval \<Rightarrow> failure + HttpBody"

datatype Output =
    Output_Schema Schema
  | Output_Fn "HttpClientResponse \<Rightarrow> failure + jsval"

datatype Error =
    Error_Schema Schema
  | Error_Fn "HttpClientResponse \<Rightarrow> jsval"

record Route =
  url :: Url
  httpMethod :: string  \<comment> \<open>the field \<open>method\<close>\<close>
  headers :: "HeadersMaker option"
  body :: "Input option"
  response :: "Output option"
  error :: "Error option"

text \<open>
  The call-time parameters: \<open>None\<close> is a call with no argument; in a parameter
  object a field is \<open>None\<close> when the object has no such key (\<open>"url" in params\<close>
  is false) and \<open>Some v\<close> when it has, with value \<open>v\<close>.
\<close>

record Params =
  params_url :: "jsval option"
  params_headers :: "jsval option"
  params_body :: "jsval option"

text \<open>The requests of the modular tree: a URL string and a header set.\<close>

type_synonym Request = "(string, Headers) HttpClientRequest"

text \<open>What a route function succeeds with: the raw response when the route has no
  output maker, a decoded or author-computed value otherwise.\<close>

datatype Success =
    Raw HttpClientResponse
  | Value jsval

subsection \<open>Author-facing specifications, \<open>Client\<close> and \<open>Config\<close>\<close>

text \<open>The author-facing shapes (\<open>MakerUrl\<close>, \<open>MakerHeaders\<close>, \<open>MakerInput\<close>,
  \<open>MakerOutput\<close>, \<open>MakerError\<close>) and their classification into tagged variants.\<close>

datatype MakerUrl =
    MakerUrlValue string
  | MakerUrlFn "jsval \<Rightarrow> string"

datatype MakerHeaders =
    MakerHeadersValue Headers
  | MakerHeadersFn "jsval \<Rightarrow> failure + Headers"

datatype MakerInput =
    MakerInputValue Schema jsval
  | MakerInputSchema Schema
  | MakerInputFn "jsval \<Rightarrow> failure + HttpBody"

datatype MakerOutput =
    MakerOutputSchema Schema
  | MakerOutputFn "HttpClientResponse \<Rightarrow> failure + jsval"

datatype MakerError =
    MakerErrorSchema Schema
  | MakerErrorFn "HttpClientResponse \<Rightarrow> jsval"

fun fromMakerUrl :: "MakerUrl \<Rightarrow> Url" where
  "fromMakerUrl (MakerUrlValue u) = Url_Value u"
| "fromMakerUrl (MakerUrlFn fn) = Url_Fn fn"

fun fromMakerHeaders :: "MakerHeaders \<Rightarrow> HeadersMaker" where
  "fromMakerHeaders (MakerHeadersValue h) = Headers_Value h"
| "fromMakerHeaders (MakerHeadersFn fn) = Headers_Fn fn"

fun fromMakerInput :: "MakerInput \<Rightarrow> Input" where
  "fromMakerInput (MakerInputValue schema v) = Input_Value schema v"
| "fromMakerInput (MakerInputSchema schema) = Input_Schema schema"
| "fromMakerInput (MakerInputFn fn) = Input_Fn fn"

fun fromMakerOutput :: "MakerOutput \<Rightarrow> Output" where
  "fromMakerOutput (MakerOutputSchema schema) = Output_Schema schema"
| "fromMakerOutput (MakerOutputFn fn) = Output_Fn fn"

fun fromMakerError :: "MakerError \<Rightarrow> Error" where
  "fromMakerError (MakerErrorSchema schema) = Error_Schema schema"
| "fromMakerError (MakerErrorFn fn) = Error_Fn fn"

text \<open>
  An optional property of a specification object that a spread can override: the
  object has no such key (\<open>Absent\<close>), or it has the key, with a value or with
  \<open>undefined\<close> (\<open>Present None\<close>). Reading the property gives \<open>undefined\<close> in
  the first and the last case.
\<close>

datatype 'a property =
    Absent
  | Present "'a option"

fun read :: "'a property \<Rightarrow> 'a option" where
  "read Absent = None"
| "read (Present v) = v"

text \<open>\<open>{ d, ...spec }\<close> for one property: the key of \<open>spec\<close> wins when \<open>spec\<close>
  has it.\<close>

fun spread :: "'a option \<Rightarrow> 'a property \<Rightarrow> 'a property" where
  "spread d Absent = Present d"
| "spread d (Present v) = Present v"

record MethodMakerSpec =
  spec_url :: MakerUrl
  spec_headers :: "MakerHeaders property"
  spec_body :: "MakerInput option"
  spec_response :: "MakerOutput option"
  spec_error :: "MakerError property"

record Client =
  client_headers :: "MakerHeaders option"
  client_error :: "MakerError option"

record Config =
  config_url :: string
  accessToken :: "string option"

section \<open>The legacy module \<open>RestApiClient\<close>: makers and routes\<close>

text \<open>
  The legacy module uses untagged unions and tells the variants apart at run time:
  \<open>typeof x === "function"\<close> for a URL or headers function, \<open>"data" in x\<close> for a
  static body, \<open>Schema.isSchema(x)\<close> for a codec.
\<close>

datatype UrlFunction =
    UrlString string
  | UrlFunc "jsval \<Rightarrow> string"

datatype HeadersFunction =
    HeadersObj Headers
  | HeadersFunc "jsval \<Rightarrow> failure + Headers"

datatype InputFunction =
    is_StaticBody: StaticBody Schema jsval
  | is_InputSchema: InputSchema Schema
  | is_InputFunc: InputFunc "jsval \<Rightarrow> failure + HttpBody"

datatype OutputFunction =
    OutputSchema Schema
  | OutputFunc "HttpClientResponse \<Rightarrow> failure + jsval"

datatype ErrorFunction =
    ErrorSchema Schema
  | ErrorFunc "HttpClientResponse \<Rightarrow> jsval"

text \<open>The fields of a legacy route are read by truthiness: \<open>None\<close> is a missing or
  \<open>undefined\<close> field, and \<open>filterStatusOk\<close> is on only for \<open>Some True\<close>.\<close>

record RestApiClient_Route =
  route_url :: UrlFunction
  route_method :: string
  route_headers :: "HeadersFunction option"
  route_body :: "InputFunction option"
  route_response :: "OutputFunction option"
  route_error :: "ErrorFunction option"
  filterStatusOk :: "bool option"

text \<open>The requests of the legacy module are the platform's, as in the modular tree.\<close>

type_synonym RestApiClient_Request = Request

text \<open>The specification that the legacy builders take: a route without its method.\<close>

record RestApiClient_Spec =
  rspec_url :: UrlFunction
  rspec_headers :: "HeadersFunction property"
  rspec_body :: "InputFunction option"
  rspec_response :: "OutputFunction option"
  rspec_error :: "ErrorFunction property"
  rspec_filterStatusOk :: "bool option"

record RestApiClient_Client =
  rclient_headers :: "HeadersFunction option"
  rclient_error :: "ErrorFunction option"

section \<open>The modular tree: \<open>make\<close>\<close>

text \<open>\<open>getHeaders\<close>, first part (the \<open>Effect.gen\<close> block): the header set of the
  headers maker.\<close>

definition getHeaders_gen :: "Route \<Rightarrow> Params option \<Rightarrow> (Request, Headers) Effect" where
  "getHeaders_gen spec params =
     (case headers spec of
        None \<Rightarrow> succeed Headers_empty
      | Some (Headers_Value h) \<Rightarrow> succeed h
      | Some (Headers_Fn fn) \<Rightarrow>
          (case params of
             None \<Rightarrow> succeed Headers_empty
           | Some p \<Rightarrow>
               (case params_headers p of
                  None \<Rightarrow> succeed Headers_empty
                | Some arg \<Rightarrow> flatMap (emit (HeadersFnCalled arg)) (\<lambda>_. fromExit (fn arg)))))"

text \<open>\<open>getHeaders\<close>, second part (the \<open>Effect.flatMap\<close> callback).
  \<open>!contentType\<close> holds for \<open>undefined\<close> and for the empty string.\<close>

definition getHeaders_contentType :: "Route \<Rightarrow> Headers \<Rightarrow> (Request, Headers) Effect" where
  "getHeaders_contentType spec hs =
     (let contentType = Headers_get ''Content-Type'' hs in
      if (contentType = None \<or> contentType = Some []) \<and>
         (case body spec of
            None \<Rightarrow> False
          | Some b \<Rightarrow> is_Input_Schema b \<or> is_Input_Value b)
      then succeed (Headers_set ''Content-Type'' ''application/json'' hs)
      else succeed hs)"

definition getHeaders :: "Route \<Rightarrow> Params option \<Rightarrow> (Request, Headers) Effect" where
  "getHeaders spec params = flatMap (getHeaders_gen spec params) (getHeaders_contentType spec)"

definition parseBody :: "HttpBody_json \<Rightarrow> Schema \<Rightarrow> jsval \<Rightarrow> ('r, HttpBody) Effect" where
  "parseBody HttpBody_json schema b = fromExit (HttpBody_json (encode schema b))"

definition getBody :: "HttpBody_json \<Rightarrow> Route \<Rightarrow> Params option \<Rightarrow> (Request, HttpBody option) Effect" where
  "getBody HttpBody_json spec params =
     (case body spec of
        Some (Input_Value schema v) \<Rightarrow> flatMap (parseBody HttpBody_json schema v) (\<lambda>b. succeed (Some b))
      | None \<Rightarrow> succeed None
      | Some i \<Rightarrow>
          (case params of
             None \<Rightarrow> succeed None
           | Some p \<Rightarrow>
               (case params_body p of
                  None \<Rightarrow> succeed None
                | Some arg \<Rightarrow>
                    (case i of
                       Input_Schema schema \<Rightarrow>
                         flatMap (parseBody HttpBody_json schema arg) (\<lambda>b. succeed (Some b))
                     | Input_Fn fn \<Rightarrow>
                         flatMap (emit (InputFnCalled arg))
                           (\<lambda>_. flatMap (fromExit (fn arg)) (\<lambda>b. succeed (Some b)))
                     | Input_Value schema v \<Rightarrow>
                         flatMap (parseBody HttpBody_json schema v) (\<lambda>b. succeed (Some b))))))"

definition parseResponse :: "Schema \<Rightarrow> HttpClientResponse \<Rightarrow> ('r, jsval) Effect" where
  "parseResponse schema res =
     flatMap (fromExit (json res)) (\<lambda>j. fromExit (decodeUnknown schema j))"

definition getResponse :: "Output option \<Rightarrow> HttpClientResponse \<Rightarrow> (Request, Success) Effect" where
  "getResponse getter res =
     (case getter of
        None \<Rightarrow> succeed (Raw res)
      | Some (Output_Schema schema) \<Rightarrow>
          flatMap (emit OutputMakerInvoked)
            (\<lambda>_. flatMap (parseResponse schema res) (\<lambda>v. succeed (Value v)))
      | Some (Output_Fn fn) \<Rightarrow>
          flatMap (emit OutputMakerInvoked)
            (\<lambda>_. flatMap (fromExit (fn res)) (\<lambda>v. succeed (Value v))))"

text \<open>\<open>getError\<close> never succeeds: both branches end in \<open>Effect.fail\<close>.\<close>

definition getError :: "Error \<Rightarrow> HttpClientResponse \<Rightarrow> (Request, unit) Effect" where
  "getError getter res =
     flatMap (emit ErrorMakerConsulted)
       (\<lambda>_. case getter of
               Error_Schema schema \<Rightarrow>
                 flatMap (parseResponse schema res) (\<lambda>err. fail (Fail err))
             | Error_Fn fn \<Rightarrow> fail (Fail (fn res)))"

text \<open>The URL of an invocation (the first statement of the returned function). The
  function of a \<open>Url_Fn\<close> is called with \<open>params.url\<close>, or with \<open>undefined\<close>
  when there is no such field.\<close>

definition make_url :: "Route \<Rightarrow> Params option \<Rightarrow> (Request, string) Effect" where
  "make_url spec params =
     (case url spec of
        Url_Value u \<Rightarrow> succeed u
      | Url_Fn fn \<Rightarrow>
          (let arg = (case params of
                        None \<Rightarrow> JUndefined
                      | Some p \<Rightarrow> (case params_url p of None \<Rightarrow> JUndefined | Some v \<Rightarrow> v))
           in flatMap (emit (UrlFnCalled arg)) (\<lambda>_. succeed (fn arg))))"

text \<open>The error statement of the returned function:
  \<open>if (spec.error && (response.status < 200 || response.status >= 300)) yield* getError(spec.error, response)\<close>.\<close>

definition make_error :: "Route \<Rightarrow> HttpClientResponse \<Rightarrow> (Request, unit) Effect" where
  "make_error spec res =
     (case error spec of
        None \<Rightarrow> succeed ()
      | Some getter \<Rightarrow>
          if status res < 200 \<or> status res \<ge> 300 then getError getter res
          else succeed ())"

text \<open>The function that \<open>make(spec)\<close> returns, run against a transport \<open>client\<close>
  (the \<open>HttpClient.HttpClient\<close> of the context).\<close>

definition make ::
  "HttpBody_json \<Rightarrow> Route \<Rightarrow> (string, Headers) HttpClient \<Rightarrow> Params option \<Rightarrow>
   (Request, Success) Effect" where
  "make HttpBody_json spec client params =
     flatMap (make_url spec params) (\<lambda>u.
     flatMap (getHeaders spec params) (\<lambda>hs.
     flatMap (getBody HttpBody_json spec params) (\<lambda>b.
     flatMap (execute client (assemble (httpMethod spec) u b hs)) (\<lambda>res.
     flatMap (make_error spec res) (\<lambda>_.
     getResponse (response spec) res)))))"

section \<open>The modular tree: builders and \<open>Client\<close>\<close>

text \<open>\<open>toRoute({ ...spec, method })\<close>.\<close>

definition toRoute :: "string \<Rightarrow> MethodMakerSpec \<Rightarrow> Route" where
  "toRoute m spec =
     \<lparr>url = fromMakerUrl (spec_url spec),
      httpMethod = m,
      headers = map_option fromMakerHeaders (read (spec_headers spec)),
      body = map_option fromMakerInput (spec_body spec),
      response = map_option fromMakerOutput (spec_response spec),
      error = map_option fromMakerError (read (spec_error spec))\<rparr>"

definition Make_get where
  "Make_get HttpBody_json spec = make HttpBody_json (toRoute ''GET'' spec)"

definition Make_post where
  "Make_post HttpBody_json spec = make HttpBody_json (toRoute ''POST'' spec)"

definition Make_put where
  "Make_put HttpBody_json spec = make HttpBody_json (toRoute ''PUT'' spec)"

definition Make_del where
  "Make_del HttpBody_json spec = make HttpBody_json (toRoute ''DELETE'' spec)"

text \<open>\<open>{ headers: this.headers, error: this.error, ...spec }\<close>.\<close>

definition Client_spread :: "Client \<Rightarrow> MethodMakerSpec \<Rightarrow> MethodMakerSpec" where
  "Client_spread c spec =
     spec\<lparr>spec_headers := spread (client_headers c) (spec_headers spec),
          spec_error := spread (client_error c) (spec_error spec)\<rparr>"

definition Client_get where
  "Client_get HttpBody_json c spec = Make_get HttpBody_json (Client_spread c spec)"

definition Client_post where
  "Client_post HttpBody_json c spec = Make_post HttpBody_json (Client_spread c spec)"

definition Client_put where
  "Client_put HttpBody_json c spec = Make_put HttpBody_json (Client_spread c spec)"

definition Client_del where
  "Client_del HttpBody_json c spec = Make_del HttpBody_json (Client_spread c spec)"

section \<open>The modular tree: configuration and transport middleware\<close>

definition startsWith :: "string \<Rightarrow> string \<Rightarrow> bool" where
  "startsWith s p = (take (length p) s = p)"

text \<open>\<open>client.pipe(mapRequestInput(f), mapRequestInput(g))\<close>. A token is truthy when
  it is a non-empty string.\<close>

definition layer :: "Config \<Rightarrow> (string, Headers) HttpClient \<Rightarrow> (string, Headers) HttpClient" where
  "layer config client =
     mapRequestInput
       (\<lambda>req. case accessToken config of
                 None \<Rightarrow> req
               | Some token \<Rightarrow> if token \<noteq> [] then bearerToken token req else req)
       (mapRequestInput
          (\<lambda>req. if startsWith (req_url req) ''/''
                  then setUrl (config_url config @ req_url req) req
                  else req)
          client)"

section \<open>The legacy module \<open>RestApiClient\<close>: \<open>make\<close>\<close>

text \<open>
  The legacy \<open>getHeaders\<close> can return the route's headers function itself
  (\<open>return spec.headers as Headers.Headers\<close>), so the value that flows on is a
  \<open>HeadersFunction\<close>. The platform reads the own properties of what it is given as
  header entries; a function object has none that is a header.
\<close>

definition ownProperties :: "HeadersFunction \<Rightarrow> Headers" where
  "ownProperties v = (case v of HeadersObj h \<Rightarrow> h | HeadersFunc fn \<Rightarrow> Map.empty)"

text \<open>\<open>getHeaders\<close>, first part (the \<open>Effect.gen\<close> block).\<close>

definition RestApiClient_getHeaders_gen ::
  "RestApiClient_Route \<Rightarrow> Params option \<Rightarrow> (RestApiClient_Request, HeadersFunction) Effect" where
  "RestApiClient_getHeaders_gen spec params =
     (case route_headers spec of
        None \<Rightarrow> succeed (HeadersObj Headers_empty)
      | Some (HeadersFunc fn) \<Rightarrow>
          (case params of
             None \<Rightarrow> succeed (HeadersFunc fn)
           | Some p \<Rightarrow>
               (case params_headers p of
                  None \<Rightarrow> succeed (HeadersFunc fn)
                | Some arg \<Rightarrow>
                    flatMap (emit (HeadersFnCalled arg))
                      (\<lambda>_. flatMap (fromExit (fn arg)) (\<lambda>h. succeed (HeadersObj h)))))
      | Some (HeadersObj h) \<Rightarrow> succeed (HeadersObj h))"

text \<open>\<open>getHeaders\<close>, second part (the \<open>Effect.flatMap\<close> callback).\<close>

definition RestApiClient_getHeaders_contentType ::
  "RestApiClient_Route \<Rightarrow> HeadersFunction \<Rightarrow> (RestApiClient_Request, HeadersFunction) Effect" where
  "RestApiClient_getHeaders_contentType spec hs =
     (let contentType = Headers_get ''Content-Type'' (ownProperties hs) in
      if (contentType = None \<or> contentType = Some []) \<and>
         (case route_body spec of None \<Rightarrow> False | Some b \<Rightarrow> is_InputSchema b)
      then succeed (HeadersObj (Headers_set ''Content-Type'' ''application/json'' (ownProperties hs)))
      else succeed hs)"

definition RestApiClient_getHeaders ::
  "RestApiClient_Route \<Rightarrow> Params option \<Rightarrow> (RestApiClient_Request, HeadersFunction) Effect" where
  "RestApiClient_getHeaders spec params =
     flatMap (RestApiClient_getHeaders_gen spec params) (RestApiClient_getHeaders_contentType spec)"

definition RestApiClient_getBody ::
  "HttpBody_json \<Rightarrow> RestApiClient_Route \<Rightarrow> Params option \<Rightarrow> (RestApiClient_Request, HttpBody option) Effect" where
  "RestApiClient_getBody HttpBody_json spec params =
     (case route_body spec of
        Some (StaticBody schema d) \<Rightarrow> flatMap (parseBody HttpBody_json schema d) (\<lambda>b. succeed (Some b))
      | None \<Rightarrow> succeed None
      | Some i \<Rightarrow>
          (case params of
             None \<Rightarrow> succeed None
           | Some p \<Rightarrow>
               (case params_body p of
                  None \<Rightarrow> succeed None
                | Some arg \<Rightarrow>
                    (case i of
                       InputSchema schema \<Rightarrow>
                         flatMap (parseBody HttpBody_json schema arg) (\<lambda>b. succeed (Some b))
                     | InputFunc fn \<Rightarrow>
                         flatMap (emit (InputFnCalled arg))
                           (\<lambda>_. flatMap (fromExit (fn arg)) (\<lambda>b. succeed (Some b)))
                     | StaticBody schema d \<Rightarrow>
                         flatMap (parseBody HttpBody_json schema d) (\<lambda>b. succeed (Some b))))))"

definition RestApiClient_getResponse ::
  "OutputFunction option \<Rightarrow> HttpClientResponse \<Rightarrow> (RestApiClient_Request, Success) Effect" where
  "RestApiClient_getResponse getter res =
     (case getter of
        None \<Rightarrow> succeed (Raw res)
      | Some (OutputSchema schema) \<Rightarrow>
          flatMap (emit OutputMakerInvoked)
            (\<lambda>_. flatMap (parseResponse schema res) (\<lambda>v. succeed (Value v)))
      | Some (OutputFunc fn) \<Rightarrow>
          flatMap (emit OutputMakerInvoked)
            (\<lambda>_. flatMap (fromExit (fn res)) (\<lambda>v. succeed (Value v))))"

definition RestApiClient_getError :: "ErrorFunction \<Rightarrow> HttpClientResponse \<Rightarrow> (RestApiClient_Request, unit) Effect" where
  "RestApiClient_getError getter res =
     flatMap (emit ErrorMakerConsulted)
       (\<lambda>_. case getter of
               ErrorSchema schema \<Rightarrow>
                 flatMap (parseResponse schema res) (\<lambda>err. fail (Fail err))
             | ErrorFunc fn \<Rightarrow> fail (Fail (fn res)))"

text \<open>The URL value of an invocation: the function is called only when the parameters
  have a \<open>url\<close> field; otherwise \<open>spec.url as string\<close> is the route's URL value
  as it is, also when it is a function (the cast does nothing at run time).\<close>

definition RestApiClient_make_url ::
  "RestApiClient_Route \<Rightarrow> Params option \<Rightarrow> (RestApiClient_Request, UrlFunction) Effect" where
  "RestApiClient_make_url spec params =
     (case route_url spec of
        UrlFunc fn \<Rightarrow>
          (case params of
             None \<Rightarrow> succeed (UrlFunc fn)
           | Some p \<Rightarrow>
               (case params_url p of
                  None \<Rightarrow> succeed (UrlFunc fn)
                | Some arg \<Rightarrow>
                    flatMap (emit (UrlFnCalled arg)) (\<lambda>_. succeed (UrlString (fn arg)))))
      | UrlString u \<Rightarrow> succeed (UrlString u))"

text \<open>The error statement of the returned function:
  \<open>if (!spec.filterStatusOk && spec.error && (response.status < 200 || response.status >= 300))
  yield* getError(spec.error, response)\<close>.\<close>

definition RestApiClient_make_error ::
  "RestApiClient_Route \<Rightarrow> HttpClientResponse \<Rightarrow> (RestApiClient_Request, unit) Effect" where
  "RestApiClient_make_error spec res =
     (case route_error spec of
        None \<Rightarrow> succeed ()
      | Some getter \<Rightarrow>
          if filterStatusOk spec \<noteq> Some True \<and> (status res < 200 \<or> status res \<ge> 300)
          then RestApiClient_getError getter res
          else succeed ())"

text \<open>
  Request assembly as the legacy \<open>make\<close> meets it. The platform is not part of this
  repository; what it does with the values that only the legacy module can hand it is
  taken from its behaviour. \<open>HttpClientRequest.make(method)(url)\<close> accepts a string;
  handed a function, it throws \<open>TypeError: Invalid URL\<close>, so the computation dies
  and no request exists. \<open>HttpClientRequest.setHeaders\<close> reads the header entries of
  the value it is given, which are none for a function.
\<close>

definition RestApiClient_request ::
  "string \<Rightarrow> UrlFunction \<Rightarrow> HttpBody option \<Rightarrow> HeadersFunction \<Rightarrow>
   (RestApiClient_Request, RestApiClient_Request) Effect" where
  "RestApiClient_request m u b hs =
     (case u of
        UrlString s \<Rightarrow> succeed (assemble m s b (ownProperties hs))
      | UrlFunc fn \<Rightarrow> fail (Die ''TypeError: Invalid URL''))"

text \<open>The function that the legacy \<open>make(spec)\<close> returns. With \<open>filterStatusOk\<close>
  on, the transport of the context is wrapped in \<open>HttpClient.filterStatusOk\<close>.\<close>

definition RestApiClient_make ::
  "HttpBody_json \<Rightarrow> RestApiClient_Route \<Rightarrow> (string, Headers) HttpClient \<Rightarrow>
   Params option \<Rightarrow> (RestApiClient_Request, Success) Effect" where
  "RestApiClient_make HttpBody_json spec client params =
     flatMap (RestApiClient_make_url spec params) (\<lambda>u.
     flatMap (RestApiClient_getHeaders spec params) (\<lambda>hs.
     flatMap (RestApiClient_getBody HttpBody_json spec params) (\<lambda>b.
     flatMap (RestApiClient_request (route_method spec) u b hs) (\<lambda>request.
     flatMap (execute
                (if filterStatusOk spec \<noteq> Some True then client
                 else HttpClient_filterStatusOk client)
                request) (\<lambda>res.
     flatMap (RestApiClient_make_error spec res) (\<lambda>_.
     RestApiClient_getResponse (route_response spec) res))))))"

section \<open>The legacy module \<open>RestApiClient\<close>: builders, \<open>Client\<close> and \<open>layer\<close>\<close>

text \<open>\<open>new Route({ ...spec, method })\<close>.\<close>

definition RestApiClient_route :: "string \<Rightarrow> RestApiClient_Spec \<Rightarrow> RestApiClient_Route" where
  "RestApiClient_route m spec =
     \<lparr>route_url = rspec_url spec,
      route_method = m,
      route_headers = read (rspec_headers spec),
      route_body = rspec_body spec,
      route_response = rspec_response spec,
      route_error = read (rspec_error spec),
      filterStatusOk = rspec_filterStatusOk spec\<rparr>"

definition RestApiClient_get where
  "RestApiClient_get HttpBody_json spec = RestApiClient_make HttpBody_json (RestApiClient_route ''GET'' spec)"

definition RestApiClient_post where
  "RestApiClient_post HttpBody_json spec = RestApiClient_make HttpBody_json (RestApiClient_route ''POST'' spec)"

definition RestApiClient_put where
  "RestApiClient_put HttpBody_json spec = RestApiClient_make HttpBody_json (RestApiClient_route ''PUT'' spec)"

definition RestApiClient_del where
  "RestApiClient_del HttpBody_json spec = RestApiClient_make HttpBody_json (RestApiClient_route ''DELETE'' spec)"

text \<open>\<open>{ headers: this.headers, error: this.error, ...spec, method }\<close>.\<close>

definition RestApiClient_Client_spread :: "RestApiClient_Client \<Rightarrow> RestApiClient_Spec \<Rightarrow> RestApiClient_Spec" where
  "RestApiClient_Client_spread c spec =
     spec\<lparr>rspec_headers := spread (rclient_headers c) (rspec_headers spec),
          rspec_error := spread (rclient_error c) (rspec_error spec)\<rparr>"

definition RestApiClient_Client_get where
  "RestApiClient_Client_get HttpBody_json c spec =
     RestApiClient_make HttpBody_json (RestApiClient_route ''GET'' (RestApiClient_Client_spread c spec))"

definition RestApiClient_Client_post where
  "RestApiClient_Client_post HttpBody_json c spec =
     RestApiClient_make HttpBody_json (RestApiClient_route ''POST'' (RestApiClient_Client_spread c spec))"

definition RestApiClient_Client_put where
  "RestApiClient_Client_put HttpBody_json c spec =
     RestApiClient_make HttpBody_json (RestApiClient_route ''PUT'' (RestApiClient_Client_spread c spec))"

definition RestApiClient_Client_del where
  "RestApiClient_Client_del HttpBody_json c spec =
     RestApiClient_make HttpBody_json (RestApiClient_route ''DELETE'' (RestApiClient_Client_spread c spec))"

text \<open>The legacy \<open>layer\<close> has the same text as the modular one.\<close>

definition RestApiClient_layer :: "Config \<Rightarrow> (string, Headers) HttpClient \<Rightarrow> (string, Headers) HttpClient" where
  "RestApiClient_layer config client =
     mapRequestInput
       (\<lambda>req. case accessToken config of
                 None \<Rightarrow> req
               | Some token \<Rightarrow> if token \<noteq> [] then bearerToken token req else req)
       (mapRequestInput
          (\<lambda>req. if startsWith (req_url req) ''/''
                  then setUrl (config_url config @ req_url req) req
                  else req)
          client)"

section \<open>Values of the example scripts\<close>

text \<open>
  Concrete values in the style of the repository's examples, for evaluating the model:
  a codec that accepts JSON objects and a transport that answers every request with a
  given status and JSON body.
\<close>

definition Todo :: Schema where
  "Todo =
     \<lparr>decodeUnknown = (\<lambda>j. case j of JObject kvs \<Rightarrow> Inr j | _ \<Rightarrow> Inl (ParseError ''Expected Todo'')),
      encode = (\<lambda>v. case v of JObject kvs \<Rightarrow> Inr v | _ \<Rightarrow> Inl (ParseError ''Expected Todo''))\<rparr>"

definition ApiError :: Schema where
  "ApiError =
     \<lparr>decodeUnknown = (\<lambda>j. case j of JObject kvs \<Rightarrow> Inr j | _ \<Rightarrow> Inl (ParseError ''Expected ApiError'')),
      encode = (\<lambda>v. case v of JObject kvs \<Rightarrow> Inr v | _ \<Rightarrow> Inl (ParseError ''Expected ApiError''))\<rparr>"

definition respond :: "int \<Rightarrow> jsval \<Rightarrow> ('u, 'h) HttpClient" where
  "respond st j = (\<lambda>req. Inr \<lparr>status = st, json = Inr j\<rparr>)"

text \<open>A transport that reports the URL and the Authorization header it was given.\<close>

definition echo :: "(string, Headers) HttpClient" where
  "echo req =
     Inr \<lparr>status = 200,
          json = Inr (JObject
                   [(''url'', JString (req_url req)),
                    (''authorization'',
                     case req_headers req ''authorization'' of
                       None \<Rightarrow> JNull
                     | Some v \<Rightarrow> JString v)])\<rparr>"

definition todoUrl :: "jsval \<Rightarrow> string" where
  "todoUrl v = (case v of JString i \<Rightarrow> ''/todos/'' @ i | _ \<Rightarrow> ''/todos/undefined'')"

definition apiKeyHeaders :: "jsval \<Rightarrow> failure + Headers" where
  "apiKeyHeaders v =
     (case v of
        JString k \<Rightarrow> Inr (Headers_set ''X-API-Key'' k Headers_empty)
      | _ \<Rightarrow> Inl (Fail (JString ''missing api key'')))"

definition textBody :: "jsval \<Rightarrow> failure + HttpBody" where
  "textBody v =
     (case v of
        JString s \<Rightarrow> Inr (RawBody ''text/plain'' s)
      | _ \<Rightarrow> Inl (Fail (JString ''expected text'')))"

text \<open>Routes in the style of the examples, in both modules.\<close>

definition fixedTodo :: jsval where
  "fixedTodo = JObject [(''title'', JString ''Buy milk'')]"

definition createTodo :: Route where
  "createTodo =
     \<lparr>url = Url_Value ''/todos'', httpMethod = ''POST'', headers = None,
      body = Some (Input_Schema Todo), response = Some (Output_Schema Todo),
      error = Some (Error_Schema ApiError)\<rparr>"

definition replaceTodo :: Route where
  "replaceTodo =
     \<lparr>url = Url_Value ''/todos/1'', httpMethod = ''PUT'', headers = None,
      body = Some (Input_Value Todo fixedTodo), response = None, error = None\<rparr>"

definition uploadNote :: Route where
  "uploadNote =
     \<lparr>url = Url_Value ''/notes'', httpMethod = ''POST'', headers = None,
      body = Some (Input_Fn textBody), response = None, error = None\<rparr>"

definition RestApiClient_createTodo :: RestApiClient_Route where
  "RestApiClient_createTodo =
     \<lparr>route_url = UrlString ''/todos'', route_method = ''POST'', route_headers = None,
      route_body = Some (InputSchema Todo), route_response = Some (OutputSchema Todo),
      route_error = Some (ErrorSchema ApiError), filterStatusOk = None\<rparr>"

definition RestApiClient_replaceTodo :: RestApiClient_Route where
  "RestApiClient_replaceTodo =
     \<lparr>route_url = UrlString ''/todos/1'', route_method = ''PUT'', route_headers = None,
      route_body = Some (StaticBody Todo fixedTodo), route_response = None,
      route_error = None, filterStatusOk = None\<rparr>"

definition RestApiClient_uploadNote :: RestApiClient_Route where
  "RestApiClient_uploadNote =
     \<lparr>route_url = UrlString ''/notes'', route_method = ''POST'', route_headers = None,
      route_body = Some (InputFunc textBody), route_response = None,
      route_error = None, filterStatusOk = None\<rparr>"

definition listTodos :: Route where
  "listTodos =
     \<lparr>url = Url_Value ''/todos'', httpMethod = ''GET'', headers = None, body = None,
      response = Some (Output_Schema Todo), error = None\<rparr>"

definition RestApiClient_listTodos :: RestApiClient_Route where
  "RestApiClient_listTodos =
     \<lparr>route_url = UrlString ''/todos'', route_method = ''GET'', route_headers = None,
      route_body = None, route_response = Some (OutputSchema Todo), route_error = None,
      filterStatusOk = None\<rparr>"

definition withBody :: "jsval \<Rightarrow> Params option" where
  "withBody v = Some \<lparr>params_url = None, params_headers = None, params_body = Some v\<rparr>"

section \<open>Running computations: events and exits\<close>

lemma flatMap_succeed [simp]: "flatMap (succeed a) f = f a"
  by (simp add: flatMap_def succeed_def split: prod.splits)

lemma flatMap_fail [simp]: "flatMap (fail e) f = fail e"
  by (simp add: flatMap_def fail_def)

lemma flatMap_pair_Inl [simp]: "flatMap (t, Inl e) f = (t, Inl e)"
  by (simp add: flatMap_def)

lemma flatMap_pair_Inr [simp]: "flatMap (t, Inr a) f = (t @ fst (f a), snd (f a))"
  by (simp add: flatMap_def split: prod.splits)

lemma flatMap_emit [simp]: "flatMap (emit ev) f = (ev # fst (f ()), snd (f ()))"
  by (simp add: emit_def)

lemma fst_succeed [simp]: "fst (succeed a) = []" and snd_succeed [simp]: "snd (succeed a) = Inr a"
  by (simp_all add: succeed_def)

lemma fst_fail [simp]: "fst (fail e) = []" and snd_fail [simp]: "snd (fail e) = Inl e"
  by (simp_all add: fail_def)

lemma fst_fromExit [simp]: "fst (fromExit x) = []" and snd_fromExit [simp]: "snd (fromExit x) = x"
  by (simp_all add: fromExit_def)

lemma fst_flatMap:
  "fst (flatMap m f) = (case snd m of Inl e \<Rightarrow> fst m | Inr a \<Rightarrow> fst m @ fst (f a))"
  by (cases m) (auto simp: flatMap_def split: sum.splits prod.splits)

lemma snd_flatMap:
  "snd (flatMap m f) = (case snd m of Inl e \<Rightarrow> Inl e | Inr a \<Rightarrow> snd (f a))"
  by (cases m) (auto simp: flatMap_def split: sum.splits prod.splits)

lemma fst_parseResponse [simp]: "fst (parseResponse schema res) = []"
  by (simp add: parseResponse_def fst_flatMap split: sum.splits)

lemma snd_parseResponse:
  "snd (parseResponse schema res) =
     (case json res of Inl e \<Rightarrow> Inl e | Inr j \<Rightarrow> decodeUnknown schema j)"
  by (simp add: parseResponse_def snd_flatMap split: sum.splits)

lemma fst_getError [simp]: "fst (getError getter res) = [ErrorMakerConsulted]"
  by (cases getter) (simp_all add: getError_def fst_flatMap split: sum.splits)

lemma snd_getError:
  "snd (getError getter res) =
     Inl (case getter of
            Error_Fn fn \<Rightarrow> Fail (fn res)
          | Error_Schema schema \<Rightarrow>
              (case json res of
                 Inl e \<Rightarrow> e
               | Inr j \<Rightarrow> (case decodeUnknown schema j of Inl e \<Rightarrow> e | Inr v \<Rightarrow> Fail v)))"
  by (cases getter) (auto simp: getError_def snd_flatMap snd_parseResponse split: sum.splits)

lemma fst_getResponse:
  "fst (getResponse getter res) = (case getter of None \<Rightarrow> [] | Some g \<Rightarrow> [OutputMakerInvoked])"
  by (auto simp: getResponse_def fst_flatMap split: option.splits Output.splits sum.splits)

lemma fst_make_url:
  "fst (make_url spec params) =
     (case url spec of
        Url_Value u \<Rightarrow> []
      | Url_Fn fn \<Rightarrow>
          [UrlFnCalled (case params of
                          None \<Rightarrow> JUndefined
                        | Some p \<Rightarrow> (case params_url p of None \<Rightarrow> JUndefined | Some v \<Rightarrow> v))])"
  by (simp add: make_url_def Let_def split: Url.splits)

lemma snd_make_url:
  "snd (make_url spec params) =
     Inr (case url spec of
        Url_Value u \<Rightarrow> u
      | Url_Fn fn \<Rightarrow>
          fn (case params of
                          None \<Rightarrow> JUndefined
                        | Some p \<Rightarrow> (case params_url p of None \<Rightarrow> JUndefined | Some v \<Rightarrow> v)))"
  by (simp add: make_url_def Let_def split: Url.splits)

lemma getHeaders_gen_events:
  "ev \<in> set (fst (getHeaders_gen spec params)) \<Longrightarrow> is_HeadersFnCalled ev"
  by (auto simp: getHeaders_gen_def split: option.splits HeadersMaker.splits)

lemma fst_getHeaders_contentType [simp]: "fst (getHeaders_contentType spec hs) = []"
  by (simp add: getHeaders_contentType_def Let_def)

lemma getHeaders_events:
  "ev \<in> set (fst (getHeaders spec params)) \<Longrightarrow> is_HeadersFnCalled ev"
  by (auto simp: getHeaders_def fst_flatMap  split: sum.splits dest: getHeaders_gen_events)

lemma fst_parseBody [simp]: "fst (parseBody J schema b) = []"
  by (simp add: parseBody_def)

lemma getBody_events:
  "ev \<in> set (fst (getBody J spec params)) \<Longrightarrow> is_InputFnCalled ev"
  by (auto simp: getBody_def fst_flatMap split: option.splits Input.splits sum.splits)

section \<open>Runs of the modular \<open>make\<close>\<close>

lemma fst_make_error:
  "fst (make_error spec res) =
     (case error spec of
        None \<Rightarrow> []
      | Some getter \<Rightarrow> if status res < 200 \<or> status res \<ge> 300 then [ErrorMakerConsulted] else [])"
  by (simp add: make_error_def split: option.splits)

lemma snd_make_error:
  "snd (make_error spec res) =
     (case error spec of
        None \<Rightarrow> Inr ()
      | Some getter \<Rightarrow>
          if status res < 200 \<or> status res \<ge> 300 then snd (getError getter res) else Inr ())"
  by (simp add: make_error_def split: option.splits)

lemma make_alt:
  "make J spec client params =
     (let mu = make_url spec params; gh = getHeaders spec params; gb = getBody J spec params in
      case snd mu of Inl e \<Rightarrow> (fst mu, Inl e) | Inr u \<Rightarrow>
      case snd gh of Inl e \<Rightarrow> (fst mu @ fst gh, Inl e) | Inr hs \<Rightarrow>
      case snd gb of Inl e \<Rightarrow> (fst mu @ fst gh @ fst gb, Inl e) | Inr b \<Rightarrow>
      case client (assemble (httpMethod spec) u b hs) of
        Inl e \<Rightarrow> (fst mu @ fst gh @ fst gb @ [Executed (assemble (httpMethod spec) u b hs)], Inl e)
      | Inr res \<Rightarrow>
          (case snd (make_error spec res) of
             Inl e \<Rightarrow> (fst mu @ fst gh @ fst gb @ [Executed (assemble (httpMethod spec) u b hs)] @ fst (make_error spec res), Inl e)
           | Inr _ \<Rightarrow> (fst mu @ fst gh @ fst gb @ [Executed (assemble (httpMethod spec) u b hs)] @ fst (make_error spec res) @ fst (getResponse (response spec) res),
                   snd (getResponse (response spec) res))))"
  unfolding make_def Let_def
  by (auto simp: prod_eq_iff fst_flatMap snd_flatMap execute_def split: sum.splits)

lemma getHeaders_filter [simp]:
  "filter is_UrlFnCalled (fst (getHeaders spec params)) = []"
  "filter is_Executed (fst (getHeaders spec params)) = []"
  "filter is_ErrorMakerConsulted (fst (getHeaders spec params)) = []"
  "filter is_OutputMakerInvoked (fst (getHeaders spec params)) = []"
  "filter is_InputFnCalled (fst (getHeaders spec params)) = []"
  by (auto simp: filter_empty_conv is_HeadersFnCalled_def dest!: getHeaders_events)

lemma getBody_filter [simp]:
  "filter is_UrlFnCalled (fst (getBody J spec params)) = []"
  "filter is_Executed (fst (getBody J spec params)) = []"
  "filter is_ErrorMakerConsulted (fst (getBody J spec params)) = []"
  "filter is_OutputMakerInvoked (fst (getBody J spec params)) = []"
  "filter is_HeadersFnCalled (fst (getBody J spec params)) = []"
  by (auto simp: filter_empty_conv is_InputFnCalled_def dest!: getBody_events)

lemma make_url_events:
  "ev \<in> set (fst (make_url spec params)) \<Longrightarrow> is_UrlFnCalled ev"
  by (auto simp: fst_make_url split: Url.splits)

lemma make_error_events:
  "ev \<in> set (fst (make_error spec res)) \<Longrightarrow> is_ErrorMakerConsulted ev"
  by (auto simp: fst_make_error split: option.splits if_splits)

lemma getResponse_events:
  "ev \<in> set (fst (getResponse getter res)) \<Longrightarrow> is_OutputMakerInvoked ev"
  by (auto simp: fst_getResponse split: option.splits)

lemma make_ExecutedD:
  assumes "Executed req \<in> set (fst (make J spec client params))"
  shows "\<exists>u hs b. snd (make_url spec params) = Inr u \<and> snd (getHeaders spec params) = Inr hs \<and>
           snd (getBody J spec params) = Inr b \<and> req = assemble (httpMethod spec) u b hs"
  using assms
  by (auto simp: make_alt Let_def split: sum.splits
      dest: make_url_events getHeaders_events getBody_events make_error_events getResponse_events)

lemma make_response:
  assumes "Executed req \<in> set (fst (make J spec client params))" and "client req = Inr res"
  shows "snd (make J spec client params) =
           (case snd (make_error spec res) of
              Inl e \<Rightarrow> Inl e
            | Inr _ \<Rightarrow> snd (getResponse (response spec) res))"
    and "filter is_ErrorMakerConsulted (fst (make J spec client params)) = fst (make_error spec res)"
    and "filter is_OutputMakerInvoked (fst (make J spec client params)) =
           (case snd (make_error spec res) of
              Inl e \<Rightarrow> []
            | Inr _ \<Rightarrow> fst (getResponse (response spec) res))"
  using make_ExecutedD [OF assms(1)] assms(2)
  by (auto simp: make_alt Let_def fst_make_url fst_make_error fst_getResponse
      split: sum.splits option.splits Url.splits)

section \<open>Runs of the legacy \<open>make\<close>\<close>

lemma fst_RestApiClient_getError [simp]:
  "fst (RestApiClient_getError getter res) = [ErrorMakerConsulted]"
  by (cases getter) (simp_all add: RestApiClient_getError_def fst_flatMap split: sum.splits)

lemma snd_RestApiClient_getError:
  "snd (RestApiClient_getError getter res) =
     Inl (case getter of
            ErrorFunc fn \<Rightarrow> Fail (fn res)
          | ErrorSchema schema \<Rightarrow>
              (case json res of
                 Inl e \<Rightarrow> e
               | Inr j \<Rightarrow> (case decodeUnknown schema j of Inl e \<Rightarrow> e | Inr v \<Rightarrow> Fail v)))"
  by (cases getter)
    (auto simp: RestApiClient_getError_def snd_flatMap snd_parseResponse split: sum.splits)

lemma fst_RestApiClient_getResponse:
  "fst (RestApiClient_getResponse getter res) =
     (case getter of None \<Rightarrow> [] | Some g \<Rightarrow> [OutputMakerInvoked])"
  by (auto simp: RestApiClient_getResponse_def fst_flatMap
      split: option.splits OutputFunction.splits sum.splits)

lemma fst_RestApiClient_make_url:
  "fst (RestApiClient_make_url spec params) =
     (case route_url spec of
        UrlString u \<Rightarrow> []
      | UrlFunc fn \<Rightarrow>
          (case params of
             None \<Rightarrow> []
           | Some p \<Rightarrow> (case params_url p of None \<Rightarrow> [] | Some arg \<Rightarrow> [UrlFnCalled arg])))"
  by (simp add: RestApiClient_make_url_def split: UrlFunction.splits option.splits)

lemma snd_RestApiClient_make_url:
  "snd (RestApiClient_make_url spec params) =
     Inr (case route_url spec of
            UrlString u \<Rightarrow> UrlString u
          | UrlFunc fn \<Rightarrow>
              (case params of
                 None \<Rightarrow> UrlFunc fn
               | Some p \<Rightarrow>
                   (case params_url p of None \<Rightarrow> UrlFunc fn | Some arg \<Rightarrow> UrlString (fn arg))))"
  by (simp add: RestApiClient_make_url_def split: UrlFunction.splits option.splits)

lemma RestApiClient_getHeaders_gen_events:
  "ev \<in> set (fst (RestApiClient_getHeaders_gen spec params)) \<Longrightarrow> is_HeadersFnCalled ev"
  by (auto simp: RestApiClient_getHeaders_gen_def fst_flatMap
      split: option.splits HeadersFunction.splits sum.splits)

lemma fst_RestApiClient_getHeaders_contentType [simp]:
  "fst (RestApiClient_getHeaders_contentType spec hs) = []"
  by (simp add: RestApiClient_getHeaders_contentType_def Let_def)

lemma RestApiClient_getHeaders_events:
  "ev \<in> set (fst (RestApiClient_getHeaders spec params)) \<Longrightarrow> is_HeadersFnCalled ev"
  by (auto simp: RestApiClient_getHeaders_def fst_flatMap split: sum.splits
      dest: RestApiClient_getHeaders_gen_events)

lemma RestApiClient_getBody_events:
  "ev \<in> set (fst (RestApiClient_getBody J spec params)) \<Longrightarrow> is_InputFnCalled ev"
  by (auto simp: RestApiClient_getBody_def fst_flatMap
      split: option.splits InputFunction.splits sum.splits)

lemma RestApiClient_getHeaders_filter [simp]:
  "filter is_UrlFnCalled (fst (RestApiClient_getHeaders spec params)) = []"
  "filter is_Executed (fst (RestApiClient_getHeaders spec params)) = []"
  "filter is_ErrorMakerConsulted (fst (RestApiClient_getHeaders spec params)) = []"
  "filter is_OutputMakerInvoked (fst (RestApiClient_getHeaders spec params)) = []"
  by (auto simp: filter_empty_conv is_HeadersFnCalled_def dest!: RestApiClient_getHeaders_events)

lemma RestApiClient_getBody_filter [simp]:
  "filter is_UrlFnCalled (fst (RestApiClient_getBody J spec params)) = []"
  "filter is_Executed (fst (RestApiClient_getBody J spec params)) = []"
  "filter is_ErrorMakerConsulted (fst (RestApiClient_getBody J spec params)) = []"
  "filter is_OutputMakerInvoked (fst (RestApiClient_getBody J spec params)) = []"
  "filter is_HeadersFnCalled (fst (RestApiClient_getBody J spec params)) = []"
  by (auto simp: filter_empty_conv is_InputFnCalled_def dest!: RestApiClient_getBody_events)

lemma fst_RestApiClient_make_error:
  "fst (RestApiClient_make_error spec res) =
     (case route_error spec of
        None \<Rightarrow> []
      | Some getter \<Rightarrow>
          if filterStatusOk spec \<noteq> Some True \<and> (status res < 200 \<or> status res \<ge> 300)
          then [ErrorMakerConsulted] else [])"
  by (simp add: RestApiClient_make_error_def split: option.splits)

lemma snd_RestApiClient_make_error:
  "snd (RestApiClient_make_error spec res) =
     (case route_error spec of
        None \<Rightarrow> Inr ()
      | Some getter \<Rightarrow>
          if filterStatusOk spec \<noteq> Some True \<and> (status res < 200 \<or> status res \<ge> 300)
          then snd (RestApiClient_getError getter res) else Inr ())"
  by (simp add: RestApiClient_make_error_def split: option.splits)

lemma RestApiClient_make_alt:
  "RestApiClient_make J spec client params =
     (let mu = RestApiClient_make_url spec params;
          gh = RestApiClient_getHeaders spec params;
          gb = RestApiClient_getBody J spec params;
          transport = (if filterStatusOk spec \<noteq> Some True then client
                       else HttpClient_filterStatusOk client) in
      case snd mu of Inl e \<Rightarrow> (fst mu, Inl e) | Inr u \<Rightarrow>
      case snd gh of Inl e \<Rightarrow> (fst mu @ fst gh, Inl e) | Inr hs \<Rightarrow>
      case snd gb of Inl e \<Rightarrow> (fst mu @ fst gh @ fst gb, Inl e) | Inr b \<Rightarrow>
      case u of
        UrlFunc fn \<Rightarrow> (fst mu @ fst gh @ fst gb, Inl (Die ''TypeError: Invalid URL''))
      | UrlString s \<Rightarrow>
      case transport (assemble (route_method spec) s b (ownProperties hs)) of
        Inl e \<Rightarrow>
          (fst mu @ fst gh @ fst gb @
           [Executed (assemble (route_method spec) s b (ownProperties hs))], Inl e)
      | Inr res \<Rightarrow>
          (case snd (RestApiClient_make_error spec res) of
             Inl e \<Rightarrow>
               (fst mu @ fst gh @ fst gb @
                [Executed (assemble (route_method spec) s b (ownProperties hs))] @
                fst (RestApiClient_make_error spec res), Inl e)
           | Inr _ \<Rightarrow>
               (fst mu @ fst gh @ fst gb @
                [Executed (assemble (route_method spec) s b (ownProperties hs))] @
                fst (RestApiClient_make_error spec res) @
                fst (RestApiClient_getResponse (route_response spec) res),
                snd (RestApiClient_getResponse (route_response spec) res))))"
  unfolding RestApiClient_make_def Let_def RestApiClient_request_def
  by (auto simp: prod_eq_iff fst_flatMap snd_flatMap execute_def
      split: sum.splits UrlFunction.splits)

section \<open>Unfolding the model on concrete inputs\<close>

lemmas effect_defs = succeed_def fail_def flatMap_def fromExit_def emit_def execute_def

lemma toLowerCase_Content_Type: "toLowerCase ''Content-Type'' = ''content-type''"
  by (simp add: toLowerCase_def)

lemma Headers_get_case_insensitive:
  "toLowerCase key = toLowerCase key' \<Longrightarrow> Headers_get key hs = Headers_get key' hs"
  by (simp add: Headers_get_def)

lemma Headers_get_CONTENT_TYPE: "Headers_get ''CONTENT-TYPE'' hs = Headers_get ''content-type'' hs"
  by (rule Headers_get_case_insensitive) (simp add: toLowerCase_def)

lemma toLowerCase_Authorization: "toLowerCase ''Authorization'' = ''authorization''"
  by (simp add: toLowerCase_def)

lemmas platform_defs =
  Headers_empty_def Headers_get_def Headers_set_def toLowerCase_Content_Type
  toLowerCase_Authorization assemble_def setUrl_def
  bearerToken_def mapRequestInput_def HttpClient_filterStatusOk_def startsWith_def

lemmas make_defs =
  make_def make_url_def make_error_def getHeaders_def getHeaders_gen_def
  getHeaders_contentType_def getBody_def parseBody_def parseResponse_def getResponse_def
  getError_def

lemmas RestApiClient_make_defs =
  RestApiClient_make_def RestApiClient_make_url_def RestApiClient_make_error_def
  RestApiClient_request_def
  RestApiClient_getHeaders_def RestApiClient_getHeaders_gen_def
  RestApiClient_getHeaders_contentType_def RestApiClient_getBody_def parseBody_def
  parseResponse_def RestApiClient_getResponse_def RestApiClient_getError_def ownProperties_def

lemmas example_defs =
  Todo_def ApiError_def jsonBody_def Either_toJSON_def failure_toJSON_def respond_def todoUrl_def apiKeyHeaders_def textBody_def
  fixedTodo_def createTodo_def replaceTodo_def uploadNote_def RestApiClient_createTodo_def
  RestApiClient_replaceTodo_def RestApiClient_uploadNote_def withBody_def echo_def listTodos_def RestApiClient_listTodos_def

section \<open>Header and body computation, case by case\<close>

lemma getHeaders_gen_fn_without_headers:
  assumes "headers spec = Some (Headers_Fn fn)"
    and "params = None \<or> (\<exists>p. params = Some p \<and> params_headers p = None)"
  shows "getHeaders_gen spec params = succeed Headers_empty"
  using assms by (auto simp: getHeaders_gen_def)

lemma RestApiClient_getHeaders_gen_fn_without_headers:
  assumes "route_headers spec = Some (HeadersFunc fn)"
    and "params = None \<or> (\<exists>p. params = Some p \<and> params_headers p = None)"
  shows "RestApiClient_getHeaders_gen spec params = succeed (HeadersFunc fn)"
  using assms by (auto simp: RestApiClient_getHeaders_gen_def)

lemma getBody_Input_Value:
  "body spec = Some (Input_Value schema v) \<Longrightarrow>
     getBody J spec params = ([], map_sum id Some (J (encode schema v)))"
  by (cases "J (encode schema v)") (simp_all add: getBody_def parseBody_def effect_defs)

lemma getBody_absent:
  assumes "body spec = None \<or>
    (\<exists>i. body spec = Some i \<and> \<not> is_Input_Value i) \<and>
    (params = None \<or> (\<exists>p. params = Some p \<and> params_body p = None))"
  shows "getBody J spec params = ([], Inr None)"
  using assms by (auto simp: getBody_def succeed_def split: Input.splits)

lemma getBody_Input_Schema:
  "body spec = Some (Input_Schema schema) \<Longrightarrow> params = Some p \<Longrightarrow> params_body p = Some arg \<Longrightarrow>
     getBody J spec params = ([], map_sum id Some (J (encode schema arg)))"
  by (cases "J (encode schema arg)") (simp_all add: getBody_def parseBody_def effect_defs)

lemma getBody_Input_Fn:
  "body spec = Some (Input_Fn fn) \<Longrightarrow> params = Some p \<Longrightarrow> params_body p = Some arg \<Longrightarrow>
     getBody J spec params = ([InputFnCalled arg], map_sum id Some (fn arg))"
  by (cases "fn arg") (simp_all add: getBody_def effect_defs)

lemma RestApiClient_getBody_StaticBody:
  "route_body spec = Some (StaticBody schema d) \<Longrightarrow>
     RestApiClient_getBody J spec params = ([], map_sum id Some (J (encode schema d)))"
  by (cases "J (encode schema d)") (simp_all add: RestApiClient_getBody_def parseBody_def effect_defs)

lemma RestApiClient_getBody_absent:
  assumes "route_body spec = None \<or>
    (\<exists>i. route_body spec = Some i \<and> \<not> is_StaticBody i) \<and>
    (params = None \<or> (\<exists>p. params = Some p \<and> params_body p = None))"
  shows "RestApiClient_getBody J spec params = ([], Inr None)"
  using assms by (auto simp: RestApiClient_getBody_def succeed_def split: InputFunction.splits)

lemma RestApiClient_getBody_InputSchema:
  "route_body spec = Some (InputSchema schema) \<Longrightarrow> params = Some p \<Longrightarrow> params_body p = Some arg \<Longrightarrow>
     RestApiClient_getBody J spec params = ([], map_sum id Some (J (encode schema arg)))"
  by (cases "J (encode schema arg)") (simp_all add: RestApiClient_getBody_def parseBody_def effect_defs)

lemma RestApiClient_getBody_InputFunc:
  "route_body spec = Some (InputFunc fn) \<Longrightarrow> params = Some p \<Longrightarrow> params_body p = Some arg \<Longrightarrow>
     RestApiClient_getBody J spec params = ([InputFnCalled arg], map_sum id Some (fn arg))"
  by (cases "fn arg") (simp_all add: RestApiClient_getBody_def effect_defs)

lemma RestApiClient_make_url_events:
  "ev \<in> set (fst (RestApiClient_make_url spec params)) \<Longrightarrow> is_UrlFnCalled ev"
  by (auto simp: fst_RestApiClient_make_url split: UrlFunction.splits option.splits)

lemma RestApiClient_make_error_events:
  "ev \<in> set (fst (RestApiClient_make_error spec res)) \<Longrightarrow> is_ErrorMakerConsulted ev"
  by (auto simp: fst_RestApiClient_make_error split: option.splits if_splits)

lemma RestApiClient_getResponse_events:
  "ev \<in> set (fst (RestApiClient_getResponse getter res)) \<Longrightarrow> is_OutputMakerInvoked ev"
  by (auto simp: fst_RestApiClient_getResponse split: option.splits)


lemma Executed_notin:
  "Executed req \<notin> set (fst (RestApiClient_make_url spec params))"
  "Executed req \<notin> set (fst (RestApiClient_getHeaders spec params))"
  "Executed req \<notin> set (fst (RestApiClient_getBody J spec params))"
  "Executed req \<notin> set (fst (RestApiClient_make_error spec res))"
  "Executed req \<notin> set (fst (RestApiClient_getResponse getter res))"
  using RestApiClient_make_url_events [of "Executed req" spec params]
    RestApiClient_getHeaders_events [of "Executed req" spec params]
    RestApiClient_getBody_events [of "Executed req" J spec params]
    RestApiClient_make_error_events [of "Executed req" spec res]
    RestApiClient_getResponse_events [of "Executed req" getter res]
  by auto

lemma RestApiClient_make_ExecutedD:
  assumes "Executed req \<in> set (fst (RestApiClient_make J spec client params))"
  shows "\<exists>s hs b. snd (RestApiClient_make_url spec params) = Inr (UrlString s) \<and>
           snd (RestApiClient_getHeaders spec params) = Inr hs \<and>
           snd (RestApiClient_getBody J spec params) = Inr b \<and>
           req = assemble (route_method spec) s b (ownProperties hs)"
proof (cases "snd (RestApiClient_make_url spec params)")
  case (Inl e)
  with assms show ?thesis
    by (simp add: RestApiClient_make_alt Let_def Executed_notin)
next
  case u: (Inr u)
  show ?thesis
  proof (cases "snd (RestApiClient_getHeaders spec params)")
    case (Inl e)
    with assms u show ?thesis
      by (simp add: RestApiClient_make_alt Let_def Executed_notin)
  next
    case hs: (Inr hs)
    show ?thesis
    proof (cases "snd (RestApiClient_getBody J spec params)")
      case (Inl e)
      with assms u hs show ?thesis
        by (simp add: RestApiClient_make_alt Let_def Executed_notin)
    next
      case b: (Inr b)
      show ?thesis
      proof (cases u)
        case (UrlFunc fn)
        with assms u hs b show ?thesis
          by (simp add: RestApiClient_make_alt Let_def Executed_notin)
      next
        case (UrlString s)
        with assms u hs b show ?thesis
          by (simp add: RestApiClient_make_alt Let_def Executed_notin
              split: sum.splits if_splits)
      qed
    qed
  qed
qed

section \<open>The events of a run\<close>

lemma make_events:
  "ev \<in> set (fst (make J spec client params)) \<Longrightarrow>
     is_UrlFnCalled ev \<or> ev \<in> set (fst (getHeaders spec params)) \<or> is_InputFnCalled ev \<or>
     is_Executed ev \<or> is_ErrorMakerConsulted ev \<or> is_OutputMakerInvoked ev"
  by (auto simp: make_alt Let_def split: sum.splits
      dest: make_url_events getBody_events make_error_events getResponse_events)

lemma make_HeadersFnCalled:
  assumes "fst (getHeaders spec params) = []"
  shows "filter is_HeadersFnCalled (fst (make J spec client params)) = []"
  unfolding filter_empty_conv
proof
  fix ev
  assume "ev \<in> set (fst (make J spec client params))"
  from make_events [OF this] assms show "\<not> is_HeadersFnCalled ev"
    by (cases ev) auto
qed

lemma RestApiClient_make_trace_prefix:
  "\<exists>t. fst (RestApiClient_make J spec client params) =
         fst (RestApiClient_make_url spec params) @ t \<and>
       (\<forall>ev \<in> set t. ev \<in> set (fst (RestApiClient_getHeaders spec params)) \<or>
          is_InputFnCalled ev \<or> is_Executed ev \<or>
          (\<exists>res. ev \<in> set (fst (RestApiClient_make_error spec res))) \<or>
          is_OutputMakerInvoked ev)"
proof (cases "snd (RestApiClient_make_url spec params)")
  case (Inl e)
  then show ?thesis
    by (simp add: RestApiClient_make_alt Let_def)
next
  case u: (Inr u)
  show ?thesis
  proof (cases "snd (RestApiClient_getHeaders spec params)")
    case (Inl e)
    with u show ?thesis
      by (simp add: RestApiClient_make_alt Let_def)
  next
    case hs: (Inr hs)
    show ?thesis
    proof (cases "snd (RestApiClient_getBody J spec params)")
      case (Inl e)
      with u hs show ?thesis
        by (auto simp: RestApiClient_make_alt Let_def dest: RestApiClient_getBody_events)
    next
      case b: (Inr b)
      show ?thesis
      proof (cases u)
        case (UrlFunc fn)
        with u hs b show ?thesis
          by (auto simp: RestApiClient_make_alt Let_def dest: RestApiClient_getBody_events)
      next
        case (UrlString s)
        with u hs b show ?thesis
          by (auto simp: RestApiClient_make_alt Let_def split: sum.splits
              dest: RestApiClient_getBody_events RestApiClient_getResponse_events)
      qed
    qed
  qed
qed

lemma RestApiClient_make_events:
  assumes "ev \<in> set (fst (RestApiClient_make J spec client params))"
  shows "is_UrlFnCalled ev \<or> ev \<in> set (fst (RestApiClient_getHeaders spec params)) \<or>
     is_InputFnCalled ev \<or> is_Executed ev \<or> is_ErrorMakerConsulted ev \<or>
     is_OutputMakerInvoked ev"
  using RestApiClient_make_trace_prefix [of J spec client params] assms
    RestApiClient_make_url_events [of ev spec params]
  by (auto dest: RestApiClient_make_error_events)

lemma RestApiClient_make_ErrorMakerConsulted:
  assumes "\<And>res. fst (RestApiClient_make_error spec res) = []"
  shows "filter is_ErrorMakerConsulted (fst (RestApiClient_make J spec client params)) = []"
  unfolding filter_empty_conv
proof
  fix ev
  assume ev: "ev \<in> set (fst (RestApiClient_make J spec client params))"
  from RestApiClient_make_trace_prefix [of J spec client params] obtain t where
    t: "fst (RestApiClient_make J spec client params) =
          fst (RestApiClient_make_url spec params) @ t"
    and k: "\<forall>ev \<in> set t. ev \<in> set (fst (RestApiClient_getHeaders spec params)) \<or>
          is_InputFnCalled ev \<or> is_Executed ev \<or>
          (\<exists>res. ev \<in> set (fst (RestApiClient_make_error spec res))) \<or>
          is_OutputMakerInvoked ev"
    by blast
  from ev t have "ev \<in> set (fst (RestApiClient_make_url spec params)) \<or> ev \<in> set t"
    by simp
  then show "\<not> is_ErrorMakerConsulted ev"
  proof
    assume "ev \<in> set (fst (RestApiClient_make_url spec params))"
    from RestApiClient_make_url_events [OF this] show ?thesis
      by (cases ev) auto
  next
    assume "ev \<in> set t"
    with k assms RestApiClient_getHeaders_events [of ev spec params] show ?thesis
      by (cases ev) auto
  qed
qed

lemma RestApiClient_make_HeadersFnCalled:
  assumes "fst (RestApiClient_getHeaders spec params) = []"
  shows "filter is_HeadersFnCalled (fst (RestApiClient_make J spec client params)) = []"
  unfolding filter_empty_conv
proof
  fix ev
  assume "ev \<in> set (fst (RestApiClient_make J spec client params))"
  from RestApiClient_make_events [OF this] assms show "\<not> is_HeadersFnCalled ev"
    by (cases ev) auto
qed

section \<open>After the response: error maker and output maker\<close>

lemma RestApiClient_make_response:
  assumes "Executed req \<in> set (fst (RestApiClient_make J spec client params))"
    and "client req = Inr res" and "filterStatusOk spec \<noteq> Some True"
  shows "snd (RestApiClient_make J spec client params) =
           (case snd (RestApiClient_make_error spec res) of
              Inl e \<Rightarrow> Inl e
            | Inr _ \<Rightarrow> snd (RestApiClient_getResponse (route_response spec) res))"
    and "filter is_ErrorMakerConsulted (fst (RestApiClient_make J spec client params)) =
           fst (RestApiClient_make_error spec res)"
    and "filter is_OutputMakerInvoked (fst (RestApiClient_make J spec client params)) =
           (case snd (RestApiClient_make_error spec res) of
              Inl e \<Rightarrow> []
            | Inr _ \<Rightarrow> fst (RestApiClient_getResponse (route_response spec) res))"
proof -
  from RestApiClient_make_ExecutedD [OF assms(1)] obtain s hs b where
    u: "snd (RestApiClient_make_url spec params) = Inr (UrlString s)"
    and hs: "snd (RestApiClient_getHeaders spec params) = Inr hs"
    and b: "snd (RestApiClient_getBody J spec params) = Inr b"
    and req: "req = assemble (route_method spec) s b (ownProperties hs)"
    by blast
  have tu: "filter is_ErrorMakerConsulted (fst (RestApiClient_make_url spec params)) = []"
    "filter is_OutputMakerInvoked (fst (RestApiClient_make_url spec params)) = []"
    by (auto simp: filter_empty_conv is_UrlFnCalled_def dest!: RestApiClient_make_url_events)
  have te: "filter is_ErrorMakerConsulted (fst (RestApiClient_make_error spec res)) =
      fst (RestApiClient_make_error spec res)"
    "filter is_OutputMakerInvoked (fst (RestApiClient_make_error spec res)) = []"
    by (auto simp: fst_RestApiClient_make_error split: option.splits)
  have tr: "filter is_ErrorMakerConsulted
      (fst (RestApiClient_getResponse (route_response spec) res)) = []"
    "filter is_OutputMakerInvoked (fst (RestApiClient_getResponse (route_response spec) res)) =
      fst (RestApiClient_getResponse (route_response spec) res)"
    by (auto simp: fst_RestApiClient_getResponse split: option.splits)
  from u hs b assms(2,3) show
    "snd (RestApiClient_make J spec client params) =
           (case snd (RestApiClient_make_error spec res) of
              Inl e \<Rightarrow> Inl e
            | Inr _ \<Rightarrow> snd (RestApiClient_getResponse (route_response spec) res))"
    by (simp add: RestApiClient_make_alt Let_def req [symmetric] split: sum.splits)
  from u hs b assms(2,3) show
    "filter is_ErrorMakerConsulted (fst (RestApiClient_make J spec client params)) =
           fst (RestApiClient_make_error spec res)"
    by (simp add: RestApiClient_make_alt Let_def req [symmetric] tu te tr split: sum.splits)
  from u hs b assms(2,3) show
    "filter is_OutputMakerInvoked (fst (RestApiClient_make J spec client params)) =
           (case snd (RestApiClient_make_error spec res) of
              Inl e \<Rightarrow> []
            | Inr _ \<Rightarrow> fst (RestApiClient_getResponse (route_response spec) res))"
    by (simp add: RestApiClient_make_alt Let_def req [symmetric] tu te tr split: sum.splits)
qed

lemma mem_filter_ErrorMakerConsulted:
  "(ErrorMakerConsulted \<in> set t) = (filter is_ErrorMakerConsulted t \<noteq> [])"
  by (auto simp: filter_empty_conv is_ErrorMakerConsulted_def)

lemma mem_filter_OutputMakerInvoked:
  "(OutputMakerInvoked \<in> set t) = (filter is_OutputMakerInvoked t \<noteq> [])"
  by (auto simp: filter_empty_conv is_OutputMakerInvoked_def)

lemma make_with_error_maker:
  assumes "error spec = Some getter"
    and "Executed req \<in> set (fst (make J spec client params))" and "client req = Inr res"
  shows "(ErrorMakerConsulted \<in> set (fst (make J spec client params))) =
           (status res < 200 \<or> 300 \<le> status res)"
    and "status res < 200 \<or> 300 \<le> status res \<Longrightarrow>
           OutputMakerInvoked \<notin> set (fst (make J spec client params))"
    and "status res < 200 \<or> 300 \<le> status res \<Longrightarrow>
           snd (make J spec client params) =
             Inl (case getter of
                    Error_Fn fn \<Rightarrow> Fail (fn res)
                  | Error_Schema schema \<Rightarrow>
                      (case json res of
                         Inl e \<Rightarrow> e
                       | Inr j \<Rightarrow>
                           (case decodeUnknown schema j of Inl e \<Rightarrow> e | Inr v \<Rightarrow> Fail v)))"
    and "200 \<le> status res \<and> status res < 300 \<Longrightarrow>
           snd (make J spec client params) = snd (getResponse (response spec) res)"
  using assms(1)
  by (auto simp: mem_filter_ErrorMakerConsulted mem_filter_OutputMakerInvoked
      make_response [OF assms(2,3)] fst_make_error snd_make_error snd_getError)

lemma RestApiClient_make_with_error_maker:
  assumes "route_error spec = Some getter" and "filterStatusOk spec \<noteq> Some True"
    and "Executed req \<in> set (fst (RestApiClient_make J spec client params))"
    and "client req = Inr res"
  shows "(ErrorMakerConsulted \<in> set (fst (RestApiClient_make J spec client params))) =
           (status res < 200 \<or> 300 \<le> status res)"
    and "status res < 200 \<or> 300 \<le> status res \<Longrightarrow>
           OutputMakerInvoked \<notin> set (fst (RestApiClient_make J spec client params))"
    and "status res < 200 \<or> 300 \<le> status res \<Longrightarrow>
           snd (RestApiClient_make J spec client params) =
             Inl (case getter of
                    ErrorFunc fn \<Rightarrow> Fail (fn res)
                  | ErrorSchema schema \<Rightarrow>
                      (case json res of
                         Inl e \<Rightarrow> e
                       | Inr j \<Rightarrow>
                           (case decodeUnknown schema j of Inl e \<Rightarrow> e | Inr v \<Rightarrow> Fail v)))"
    and "200 \<le> status res \<and> status res < 300 \<Longrightarrow>
           snd (RestApiClient_make J spec client params) =
             snd (RestApiClient_getResponse (route_response spec) res)"
  using assms(1,2)
  by (auto simp: mem_filter_ErrorMakerConsulted mem_filter_OutputMakerInvoked
      RestApiClient_make_response [OF assms(3,4,2)] fst_RestApiClient_make_error
      snd_RestApiClient_make_error snd_RestApiClient_getError)

lemma snd_getResponse_Schema:
  "json res = Inr j \<Longrightarrow> decodeUnknown schema j = Inr v \<Longrightarrow>
     snd (getResponse (Some (Output_Schema schema)) res) = Inr (Value v)"
  by (simp add: getResponse_def snd_flatMap snd_parseResponse)

lemma snd_RestApiClient_getResponse_Schema:
  "json res = Inr j \<Longrightarrow> decodeUnknown schema j = Inr v \<Longrightarrow>
     snd (RestApiClient_getResponse (Some (OutputSchema schema)) res) = Inr (Value v)"
  by (simp add: RestApiClient_getResponse_def snd_flatMap snd_parseResponse)

lemma make_without_error_maker:
  assumes "error spec = None"
    and "Executed req \<in> set (fst (make J spec client params))" and "client req = Inr res"
  shows "snd (make J spec client params) = snd (getResponse (response spec) res)"
    and "ErrorMakerConsulted \<notin> set (fst (make J spec client params))"
  using assms(1)
  by (auto simp: mem_filter_ErrorMakerConsulted make_response [OF assms(2,3)] fst_make_error
      snd_make_error)

lemma RestApiClient_make_without_error_maker:
  assumes "route_error spec = None" and "filterStatusOk spec \<noteq> Some True"
    and "Executed req \<in> set (fst (RestApiClient_make J spec client params))"
    and "client req = Inr res"
  shows "snd (RestApiClient_make J spec client params) =
           snd (RestApiClient_getResponse (route_response spec) res)"
    and "ErrorMakerConsulted \<notin> set (fst (RestApiClient_make J spec client params))"
  using assms(1)
  by (auto simp: mem_filter_ErrorMakerConsulted RestApiClient_make_response [OF assms(3,4,2)]
      fst_RestApiClient_make_error snd_RestApiClient_make_error)

section \<open>The claims\<close>

text \<open>
  C9. In the modular tree, a route whose URL maker is a custom function calls that
  function exactly once per invocation, with the \<open>url\<close> field of the call-time
  parameters when they have one and with \<open>undefined\<close> otherwise, and every request
  handed to the transport has the returned string as its URL.
\<close>

theorem C9_url_fn_called_once:
  assumes "url spec = Url_Fn fn"
  shows "let arg = (case params of
                      None \<Rightarrow> JUndefined
                    | Some p \<Rightarrow> (case params_url p of None \<Rightarrow> JUndefined | Some v \<Rightarrow> v))
         in filter is_UrlFnCalled (fst (make J spec client params)) = [UrlFnCalled arg] \<and>
            (\<forall>req. Executed req \<in> set (fst (make J spec client params)) \<longrightarrow>
                   req_url req = fn arg)"
proof -
  have calls: "filter is_UrlFnCalled (fst (make J spec client params)) =
      [UrlFnCalled (case params of
                      None \<Rightarrow> JUndefined
                    | Some p \<Rightarrow> (case params_url p of None \<Rightarrow> JUndefined | Some v \<Rightarrow> v))]"
    using assms
    by (simp add: make_alt Let_def fst_make_url snd_make_url fst_make_error fst_getResponse
        split: sum.splits option.splits)
  have used: "req_url req = fn (case params of
                      None \<Rightarrow> JUndefined
                    | Some p \<Rightarrow> (case params_url p of None \<Rightarrow> JUndefined | Some v \<Rightarrow> v))"
    if "Executed req \<in> set (fst (make J spec client params))" for req
    using make_ExecutedD [OF that] assms
    by (auto simp: snd_make_url assemble_def)
  show ?thesis
    unfolding Let_def using calls used by blast
qed

text \<open>C9 on the \<open>getTodo\<close> route of the examples, with and without a \<open>url\<close> field.\<close>

theorem C9_url_fn_called_once_witness:
  "url \<lparr>url = Url_Fn todoUrl, httpMethod = ''GET'', headers = None, body = None,
        response = Some (Output_Schema Todo), error = None\<rparr> = Url_Fn todoUrl \<and>
   fst (make jsonBody
          \<lparr>url = Url_Fn todoUrl, httpMethod = ''GET'', headers = None, body = None,
           response = Some (Output_Schema Todo), error = None\<rparr>
          (respond 200 (JObject [(''id'', JString ''123'')]))
          (Some \<lparr>params_url = Some (JString ''123''), params_headers = None, params_body = None\<rparr>))
     = [UrlFnCalled (JString ''123''),
        Executed \<lparr>req_method = ''GET'', req_url = ''/todos/123'', req_headers = Map.empty,
                  req_body = None\<rparr>,
        OutputMakerInvoked] \<and>
   fst (make jsonBody
          \<lparr>url = Url_Fn todoUrl, httpMethod = ''GET'', headers = None, body = None,
           response = Some (Output_Schema Todo), error = None\<rparr>
          (respond 200 (JObject [(''id'', JString ''123'')]))
          None)
     = [UrlFnCalled JUndefined,
        Executed \<lparr>req_method = ''GET'', req_url = ''/todos/undefined'', req_headers = Map.empty,
                  req_body = None\<rparr>,
        OutputMakerInvoked]"
  using
    C9_url_fn_called_once
      [of "\<lparr>url = Url_Fn todoUrl, httpMethod = ''GET'', headers = None, body = None,
            response = Some (Output_Schema Todo), error = None\<rparr>"
          todoUrl
          "Some \<lparr>params_url = Some (JString ''123''), params_headers = None, params_body = None\<rparr>"
          jsonBody "respond 200 (JObject [(''id'', JString ''123'')])"]
    C9_url_fn_called_once
      [of "\<lparr>url = Url_Fn todoUrl, httpMethod = ''GET'', headers = None, body = None,
            response = Some (Output_Schema Todo), error = None\<rparr>"
          todoUrl None jsonBody "respond 200 (JObject [(''id'', JString ''123'')])"]
  by (simp add: make_defs effect_defs platform_defs example_defs)

text \<open>
  C10, as stated, has the function value used as the URL of the request. On a legacy
  route whose URL is a function, called with no argument, no request exists: the
  request constructor rejects the function and the computation dies.
\<close>

theorem C10_counterexample:
  "RestApiClient_make jsonBody
     \<lparr>route_url = UrlFunc todoUrl, route_method = ''GET'', route_headers = None,
      route_body = None, route_response = None, route_error = None,
      filterStatusOk = None\<rparr>
     (respond 200 JNull) None
   = ([], Inl (Die ''TypeError: Invalid URL''))"
  by (simp add: RestApiClient_make_defs effect_defs platform_defs respond_def)

text \<open>
  C10, amended. In the legacy module, a route whose URL is a function, invoked with
  parameters that have no \<open>url\<close> field, never calls the function: the URL value that
  \<open>make\<close> passes to the request constructor is the function value itself, not a
  string that the function returns. The constructor rejects it, so no request is handed
  to the transport and the invocation never succeeds; it dies with the constructor's
  exception once the headers and the body have been computed.
\<close>

theorem C10_legacy_url_fn_amended:
  assumes "route_url spec = UrlFunc fn"
    and "params = None \<or> (\<exists>p. params = Some p \<and> params_url p = None)"
  shows "filter is_UrlFnCalled (fst (RestApiClient_make J spec client params)) = [] \<and>
         RestApiClient_make_url spec params = ([], Inr (UrlFunc fn)) \<and>
         filter is_Executed (fst (RestApiClient_make J spec client params)) = [] \<and>
         (\<forall>v. snd (RestApiClient_make J spec client params) \<noteq> Inr v) \<and>
         (\<forall>hs b. snd (RestApiClient_getHeaders spec params) = Inr hs \<and>
                  snd (RestApiClient_getBody J spec params) = Inr b \<longrightarrow>
                  snd (RestApiClient_make J spec client params) =
                    Inl (Die ''TypeError: Invalid URL''))"
proof -
  have url: "RestApiClient_make_url spec params = ([], Inr (UrlFunc fn))"
    using assms by (auto simp: RestApiClient_make_url_def succeed_def)
  have calls: "filter is_UrlFnCalled (fst (RestApiClient_make J spec client params)) = []"
    by (simp add: RestApiClient_make_alt Let_def url split: sum.splits)
  have none: "filter is_Executed (fst (RestApiClient_make J spec client params)) = []"
    by (simp add: RestApiClient_make_alt Let_def url split: sum.splits)
  have never: "snd (RestApiClient_make J spec client params) \<noteq> Inr v" for v
    by (simp add: RestApiClient_make_alt Let_def url split: sum.splits)
  have dies: "snd (RestApiClient_make J spec client params) = Inl (Die ''TypeError: Invalid URL'')"
    if "snd (RestApiClient_getHeaders spec params) = Inr hs \<and>
        snd (RestApiClient_getBody J spec params) = Inr b" for hs b
    using that by (simp add: RestApiClient_make_alt Let_def url)
  from url calls none never dies show ?thesis
    by blast
qed

text \<open>C10 amended, on a legacy route with the URL function of the examples, called with
  no argument.\<close>

theorem C10_legacy_url_fn_amended_witness:
  "route_url \<lparr>route_url = UrlFunc todoUrl, route_method = ''GET'', route_headers = None,
               route_body = None, route_response = None, route_error = None,
               filterStatusOk = None\<rparr> = UrlFunc todoUrl \<and>
   snd (RestApiClient_getHeaders
          \<lparr>route_url = UrlFunc todoUrl, route_method = ''GET'', route_headers = None,
           route_body = None, route_response = None, route_error = None,
           filterStatusOk = None\<rparr> None) = Inr (HeadersObj Map.empty) \<and>
   snd (RestApiClient_getBody jsonBody
          \<lparr>route_url = UrlFunc todoUrl, route_method = ''GET'', route_headers = None,
           route_body = None, route_response = None, route_error = None,
           filterStatusOk = None\<rparr> None) = Inr None \<and>
   filter is_UrlFnCalled
     (fst (RestApiClient_make jsonBody
             \<lparr>route_url = UrlFunc todoUrl, route_method = ''GET'', route_headers = None,
              route_body = None, route_response = None, route_error = None,
              filterStatusOk = None\<rparr>
             (respond 200 JNull) None)) = [] \<and>
   filter is_Executed
     (fst (RestApiClient_make jsonBody
             \<lparr>route_url = UrlFunc todoUrl, route_method = ''GET'', route_headers = None,
              route_body = None, route_response = None, route_error = None,
              filterStatusOk = None\<rparr>
             (respond 200 JNull) None)) = [] \<and>
   snd (RestApiClient_make jsonBody
          \<lparr>route_url = UrlFunc todoUrl, route_method = ''GET'', route_headers = None,
           route_body = None, route_response = None, route_error = None,
           filterStatusOk = None\<rparr>
          (respond 200 JNull) None) = Inl (Die ''TypeError: Invalid URL'')"
proof -
  let ?spec = "\<lparr>route_url = UrlFunc todoUrl, route_method = ''GET'', route_headers = None,
               route_body = None, route_response = None, route_error = None,
               filterStatusOk = None\<rparr>"
  have u: "route_url ?spec = UrlFunc todoUrl"
    by simp
  have h: "snd (RestApiClient_getHeaders ?spec None) = Inr (HeadersObj Map.empty) \<and>
           snd (RestApiClient_getBody jsonBody ?spec None) = Inr None"
    by (simp add: RestApiClient_getHeaders_def RestApiClient_getHeaders_gen_def
        RestApiClient_getHeaders_contentType_def RestApiClient_getBody_def effect_defs
        platform_defs ownProperties_def)
  note c = C10_legacy_url_fn_amended [of ?spec todoUrl None jsonBody "respond 200 JNull", OF u]
  from c h have d: "snd (RestApiClient_make jsonBody ?spec (respond 200 JNull) None) =
      Inl (Die ''TypeError: Invalid URL'')"
    by blast
  from c u h d show ?thesis
    by simp
qed

text \<open>
  C4. A route whose headers maker is a custom function, invoked with parameters that
  have no \<open>headers\<close> field, never invokes the function, and the header set it uses
  is the empty one before Content-Type injection. In the modular tree the first part of
  \<open>getHeaders\<close> yields \<open>Headers.empty\<close>. In the legacy module it yields the
  function itself, from which the platform reads no header entry. In both, what
  \<open>getHeaders\<close> yields in the end has the entries that Content-Type injection gives
  on the empty header set.
\<close>

theorem C4_headers_fn_without_headers_field:
  "(headers spec = Some (Headers_Fn fn) \<and>
    (params = None \<or> (\<exists>p. params = Some p \<and> params_headers p = None)) \<longrightarrow>
      getHeaders_gen spec params = ([], Inr Headers_empty) \<and>
      getHeaders spec params = getHeaders_contentType spec Headers_empty \<and>
      filter is_HeadersFnCalled (fst (make J spec client params)) = []) \<and>
   (route_headers rspec = Some (HeadersFunc rfn) \<and>
    (params = None \<or> (\<exists>p. params = Some p \<and> params_headers p = None)) \<longrightarrow>
      (\<exists>v. RestApiClient_getHeaders_gen rspec params = ([], Inr v) \<and>
           ownProperties v = Headers_empty) \<and>
      fst (RestApiClient_getHeaders rspec params) = [] \<and>
      (\<exists>v. snd (RestApiClient_getHeaders rspec params) = Inr v \<and>
           ownProperties v =
             (if \<exists>b. route_body rspec = Some b \<and> is_InputSchema b
              then Headers_set ''Content-Type'' ''application/json'' Headers_empty
              else Headers_empty)) \<and>
      filter is_HeadersFnCalled (fst (RestApiClient_make J rspec rclient params)) = [])"
proof (intro conjI impI)
  assume a: "headers spec = Some (Headers_Fn fn) \<and>
    (params = None \<or> (\<exists>p. params = Some p \<and> params_headers p = None))"
  then have g: "getHeaders_gen spec params = succeed Headers_empty"
    by (simp add: getHeaders_gen_fn_without_headers)
  then show "getHeaders_gen spec params = ([], Inr Headers_empty)"
    by (simp add: succeed_def)
  show h: "getHeaders spec params = getHeaders_contentType spec Headers_empty"
    by (simp add: getHeaders_def g)
  have "fst (getHeaders spec params) = []"
    by (simp add: h)
  then show "filter is_HeadersFnCalled (fst (make J spec client params)) = []"
    by (rule make_HeadersFnCalled)
next
  assume a: "route_headers rspec = Some (HeadersFunc rfn) \<and>
    (params = None \<or> (\<exists>p. params = Some p \<and> params_headers p = None))"
  then have g: "RestApiClient_getHeaders_gen rspec params = succeed (HeadersFunc rfn)"
    by (simp add: RestApiClient_getHeaders_gen_fn_without_headers)
  then show "\<exists>v. RestApiClient_getHeaders_gen rspec params = ([], Inr v) \<and>
           ownProperties v = Headers_empty"
    by (simp add: succeed_def ownProperties_def Headers_empty_def)
  show t: "fst (RestApiClient_getHeaders rspec params) = []"
    by (simp add: RestApiClient_getHeaders_def g)
  have "snd (RestApiClient_getHeaders rspec params) =
      snd (RestApiClient_getHeaders_contentType rspec (HeadersFunc rfn))"
    by (simp add: RestApiClient_getHeaders_def g)
  then show "\<exists>v. snd (RestApiClient_getHeaders rspec params) = Inr v \<and>
           ownProperties v =
             (if \<exists>b. route_body rspec = Some b \<and> is_InputSchema b
              then Headers_set ''Content-Type'' ''application/json'' Headers_empty
              else Headers_empty)"
    by (cases "route_body rspec")
      (simp_all add: RestApiClient_getHeaders_contentType_def Let_def ownProperties_def
        Headers_get_def Headers_empty_def)
  from t show "filter is_HeadersFnCalled (fst (RestApiClient_make J rspec rclient params)) = []"
    by (rule RestApiClient_make_HeadersFnCalled)
qed

text \<open>C4 on a GET route with a headers function, called with no argument, in both
  modules: the function is not called and the request carries no header.\<close>

theorem C4_headers_fn_without_headers_field_witness:
  "getHeaders_gen
     \<lparr>url = Url_Value ''/todos'', httpMethod = ''GET'',
      headers = Some (Headers_Fn apiKeyHeaders), body = None, response = None,
      error = None\<rparr> None = ([], Inr Map.empty) \<and>
   RestApiClient_getHeaders_gen
     \<lparr>route_url = UrlString ''/todos'', route_method = ''GET'',
      route_headers = Some (HeadersFunc apiKeyHeaders), route_body = None,
      route_response = None, route_error = None, filterStatusOk = None\<rparr> None
     = ([], Inr (HeadersFunc apiKeyHeaders)) \<and>
   ownProperties (HeadersFunc apiKeyHeaders) = Map.empty \<and>
   fst (make jsonBody
     \<lparr>url = Url_Value ''/todos'', httpMethod = ''GET'',
      headers = Some (Headers_Fn apiKeyHeaders), body = None, response = None,
      error = None\<rparr> (respond 200 JNull) None)
     = [Executed \<lparr>req_method = ''GET'', req_url = ''/todos'', req_headers = Map.empty,
                  req_body = None\<rparr>] \<and>
   fst (RestApiClient_make jsonBody
     \<lparr>route_url = UrlString ''/todos'', route_method = ''GET'',
      route_headers = Some (HeadersFunc apiKeyHeaders), route_body = None,
      route_response = None, route_error = None, filterStatusOk = None\<rparr>
     (respond 200 JNull) None)
     = [Executed \<lparr>req_method = ''GET'', req_url = ''/todos'', req_headers = Map.empty,
                  req_body = None\<rparr>]"
proof -
  let ?spec = "\<lparr>url = Url_Value ''/todos'', httpMethod = ''GET'',
      headers = Some (Headers_Fn apiKeyHeaders), body = None, response = None,
      error = None\<rparr>"
  let ?rspec = "\<lparr>route_url = UrlString ''/todos'', route_method = ''GET'',
      route_headers = Some (HeadersFunc apiKeyHeaders), route_body = None,
      route_response = None, route_error = None, filterStatusOk = None\<rparr>"
  note c = C4_headers_fn_without_headers_field
    [where spec = ?spec and fn = apiKeyHeaders and params = None and J = jsonBody
       and client = "respond 200 JNull"]
  have "headers ?spec = Some (Headers_Fn apiKeyHeaders) \<and>
      ((None :: Params option) = None \<or>
       (\<exists>p. (None :: Params option) = Some p \<and> params_headers p = None))"
    by simp
  with c have "getHeaders_gen ?spec None = ([], Inr Headers_empty)"
    by blast
  then have m: "getHeaders_gen ?spec None = ([], Inr Map.empty)"
    by (simp add: Headers_empty_def)
  have l: "RestApiClient_getHeaders_gen ?rspec None = ([], Inr (HeadersFunc apiKeyHeaders)) \<and>
      ownProperties (HeadersFunc apiKeyHeaders) = Map.empty"
    by (simp add: RestApiClient_getHeaders_gen_def succeed_def ownProperties_def)
  have em: "fst (make jsonBody ?spec (respond 200 JNull) None)
     = [Executed \<lparr>req_method = ''GET'', req_url = ''/todos'', req_headers = Map.empty,
                  req_body = None\<rparr>]"
    by (simp add: make_defs effect_defs platform_defs respond_def)
  have el: "fst (RestApiClient_make jsonBody ?rspec (respond 200 JNull) None)
     = [Executed \<lparr>req_method = ''GET'', req_url = ''/todos'', req_headers = Map.empty,
                  req_body = None\<rparr>]"
    by (simp add: RestApiClient_make_defs effect_defs platform_defs respond_def)
  from m l em el show ?thesis
    by simp
qed

text \<open>
  C3. Once the first part of \<open>getHeaders\<close> has produced a header set with no
  Content-Type entry, the result carries \<open>Content-Type: application/json\<close> exactly
  when the input maker is JSON-encodable: a static value or a codec in the modular
  tree, a codec only in the legacy module, where a static body leaves the header set
  as it is.
\<close>

theorem C3_content_type_auto_injection:
  "(snd (getHeaders_gen spec params) = Inr hs \<and> Headers_get ''Content-Type'' hs = None \<longrightarrow>
      snd (getHeaders spec params) =
        Inr (if \<exists>b. body spec = Some b \<and> (is_Input_Value b \<or> is_Input_Schema b)
             then Headers_set ''Content-Type'' ''application/json'' hs
             else hs) \<and>
      (\<forall>hs'. snd (getHeaders spec params) = Inr hs' \<longrightarrow>
         (Headers_get ''Content-Type'' hs' = Some ''application/json'') =
         (\<exists>b. body spec = Some b \<and> (is_Input_Value b \<or> is_Input_Schema b)))) \<and>
   (snd (RestApiClient_getHeaders_gen rspec params) = Inr v \<and>
    Headers_get ''Content-Type'' (ownProperties v) = None \<longrightarrow>
      snd (RestApiClient_getHeaders rspec params) =
        Inr (if \<exists>b. route_body rspec = Some b \<and> is_InputSchema b
             then HeadersObj (Headers_set ''Content-Type'' ''application/json'' (ownProperties v))
             else v) \<and>
      (\<forall>v'. snd (RestApiClient_getHeaders rspec params) = Inr v' \<longrightarrow>
         (Headers_get ''Content-Type'' (ownProperties v') = Some ''application/json'') =
         (\<exists>b. route_body rspec = Some b \<and> is_InputSchema b)) \<and>
      (\<forall>b. route_body rspec = Some b \<and> is_StaticBody b \<longrightarrow>
         snd (RestApiClient_getHeaders rspec params) = Inr v))"
proof (intro conjI impI)
  assume a: "snd (getHeaders_gen spec params) = Inr hs \<and> Headers_get ''Content-Type'' hs = None"
  show m: "snd (getHeaders spec params) =
        Inr (if \<exists>b. body spec = Some b \<and> (is_Input_Value b \<or> is_Input_Schema b)
             then Headers_set ''Content-Type'' ''application/json'' hs
             else hs)"
    using a
    by (auto simp: getHeaders_def snd_flatMap getHeaders_contentType_def Let_def split: option.splits)
  show "\<forall>hs'. snd (getHeaders spec params) = Inr hs' \<longrightarrow>
         (Headers_get ''Content-Type'' hs' = Some ''application/json'') =
         (\<exists>b. body spec = Some b \<and> (is_Input_Value b \<or> is_Input_Schema b))"
    using a unfolding m
    by (auto simp: Headers_get_def Headers_set_def)
next
  assume a: "snd (RestApiClient_getHeaders_gen rspec params) = Inr v \<and>
    Headers_get ''Content-Type'' (ownProperties v) = None"
  show m: "snd (RestApiClient_getHeaders rspec params) =
        Inr (if \<exists>b. route_body rspec = Some b \<and> is_InputSchema b
             then HeadersObj (Headers_set ''Content-Type'' ''application/json'' (ownProperties v))
             else v)"
    using a
    by (auto simp: RestApiClient_getHeaders_def snd_flatMap
        RestApiClient_getHeaders_contentType_def Let_def split: option.splits)
  show "\<forall>v'. snd (RestApiClient_getHeaders rspec params) = Inr v' \<longrightarrow>
         (Headers_get ''Content-Type'' (ownProperties v') = Some ''application/json'') =
         (\<exists>b. route_body rspec = Some b \<and> is_InputSchema b)"
    using a unfolding m
    by (auto simp: Headers_get_def Headers_set_def ownProperties_def)
  show "\<forall>b. route_body rspec = Some b \<and> is_StaticBody b \<longrightarrow>
         snd (RestApiClient_getHeaders rspec params) = Inr v"
    unfolding m by (auto simp: InputFunction.disc_eq_case split: InputFunction.splits)
qed

text \<open>C3 on a PUT route with a static body and no headers maker, in both modules.\<close>

theorem C3_content_type_auto_injection_witness:
  "snd (getHeaders_gen
          \<lparr>url = Url_Value ''/todos'', httpMethod = ''PUT'', headers = None,
           body = Some (Input_Value Todo (JObject [(''title'', JString ''Buy milk'')])),
           response = None, error = None\<rparr> None) = Inr Map.empty \<and>
   Headers_get ''Content-Type'' Map.empty = None \<and>
   snd (getHeaders
          \<lparr>url = Url_Value ''/todos'', httpMethod = ''PUT'', headers = None,
           body = Some (Input_Value Todo (JObject [(''title'', JString ''Buy milk'')])),
           response = None, error = None\<rparr> None)
     = Inr [''content-type'' \<mapsto> ''application/json''] \<and>
   snd (RestApiClient_getHeaders_gen
          \<lparr>route_url = UrlString ''/todos'', route_method = ''PUT'', route_headers = None,
           route_body = Some (StaticBody Todo (JObject [(''title'', JString ''Buy milk'')])),
           route_response = None, route_error = None, filterStatusOk = None\<rparr> None)
     = Inr (HeadersObj Map.empty) \<and>
   Headers_get ''Content-Type'' (ownProperties (HeadersObj Map.empty)) = None \<and>
   snd (RestApiClient_getHeaders
          \<lparr>route_url = UrlString ''/todos'', route_method = ''PUT'', route_headers = None,
           route_body = Some (StaticBody Todo (JObject [(''title'', JString ''Buy milk'')])),
           route_response = None, route_error = None, filterStatusOk = None\<rparr> None)
     = Inr (HeadersObj Map.empty)"
proof -
  let ?spec = "\<lparr>url = Url_Value ''/todos'', httpMethod = ''PUT'', headers = None,
           body = Some (Input_Value Todo (JObject [(''title'', JString ''Buy milk'')])),
           response = None, error = None\<rparr>"
  let ?rspec = "\<lparr>route_url = UrlString ''/todos'', route_method = ''PUT'', route_headers = None,
           route_body = Some (StaticBody Todo (JObject [(''title'', JString ''Buy milk'')])),
           route_response = None, route_error = None, filterStatusOk = None\<rparr>"
  have m: "snd (getHeaders_gen ?spec None) = Inr Map.empty \<and>
           Headers_get ''Content-Type'' Map.empty = None"
    by (simp add: getHeaders_gen_def succeed_def Headers_empty_def Headers_get_def)
  have l: "snd (RestApiClient_getHeaders_gen ?rspec None) = Inr (HeadersObj Map.empty) \<and>
           Headers_get ''Content-Type'' (ownProperties (HeadersObj Map.empty)) = None"
    by (simp add: RestApiClient_getHeaders_gen_def succeed_def Headers_empty_def Headers_get_def
        ownProperties_def)
  note C3 = C3_content_type_auto_injection [of ?spec None Map.empty ?rspec "HeadersObj Map.empty"]
  from C3 m have "snd (getHeaders ?spec None) =
      Inr (if \<exists>b. body ?spec = Some b \<and> (is_Input_Value b \<or> is_Input_Schema b)
           then Headers_set ''Content-Type'' ''application/json'' Map.empty
           else Map.empty)"
    by blast
  then have m': "snd (getHeaders ?spec None) = Inr [''content-type'' \<mapsto> ''application/json'']"
    by (simp add: Headers_set_def toLowerCase_Content_Type)
  from C3 l have "snd (RestApiClient_getHeaders ?rspec None) =
      Inr (if \<exists>b. route_body ?rspec = Some b \<and> is_InputSchema b
           then HeadersObj (Headers_set ''Content-Type'' ''application/json''
                  (ownProperties (HeadersObj Map.empty)))
           else HeadersObj Map.empty)"
    by blast
  then have l': "snd (RestApiClient_getHeaders ?rspec None) = Inr (HeadersObj Map.empty)"
    by simp
  from m l m' l' show ?thesis
    by blast
qed

text \<open>
  C5. The body of a request. The case order of \<open>getBody\<close> is the claim's, in both
  modules (lemmas \<open>getBody_Input_Value\<close>, \<open>getBody_absent\<close>,
  \<open>getBody_Input_Schema\<close>, \<open>getBody_Input_Fn\<close> and their legacy twins). The
  payload of a static value or codec maker is not the claim's: \<open>parseBody\<close> hands
  \<open>HttpBody.json\<close> the \<open>Either\<close> that the encoder returned, not the encoded value,
  so the body is the JSON text of that \<open>Either\<close>, and a value that the codec
  rejects is sent all the same, as a \<open>Left\<close>, and the route goes on to succeed.
\<close>

theorem C5_json_payload_is_the_serialised_Either:
  "encode Todo fixedTodo = Inr fixedTodo \<and>
   getBody jsonBody createTodo (withBody fixedTodo)
     = ([], Inr (Some (JsonBody (JObject
          [(''_id'', JString ''Either''), (''_tag'', JString ''Right''),
           (''right'', fixedTodo)])))) \<and>
   getBody jsonBody replaceTodo None
     = ([], Inr (Some (JsonBody (JObject
          [(''_id'', JString ''Either''), (''_tag'', JString ''Right''),
           (''right'', fixedTodo)])))) \<and>
   encode Todo (JString ''milk'') = Inl (ParseError ''Expected Todo'') \<and>
   getBody jsonBody createTodo (withBody (JString ''milk''))
     = ([], Inr (Some (JsonBody (JObject
          [(''_id'', JString ''Either''), (''_tag'', JString ''Left''),
           (''left'', JObject [(''_id'', JString ''ParseError''),
                               (''message'', JString ''Expected Todo'')])])))) \<and>
   snd (make jsonBody createTodo (respond 201 (JObject [(''id'', JString ''1'')]))
          (withBody (JString ''milk'')))
     = Inr (Value (JObject [(''id'', JString ''1'')])) \<and>
   RestApiClient_getBody jsonBody RestApiClient_createTodo (withBody fixedTodo)
     = ([], Inr (Some (JsonBody (JObject
          [(''_id'', JString ''Either''), (''_tag'', JString ''Right''),
           (''right'', fixedTodo)])))) \<and>
   RestApiClient_getBody jsonBody RestApiClient_replaceTodo None
     = ([], Inr (Some (JsonBody (JObject
          [(''_id'', JString ''Either''), (''_tag'', JString ''Right''),
           (''right'', fixedTodo)])))) \<and>
   snd (RestApiClient_make jsonBody RestApiClient_createTodo
          (respond 201 (JObject [(''id'', JString ''1'')])) (withBody (JString ''milk'')))
     = Inr (Value (JObject [(''id'', JString ''1'')]))"
proof -
  have e: "encode Todo fixedTodo = Inr fixedTodo \<and>
      encode Todo (JString ''milk'') = Inl (ParseError ''Expected Todo'')"
    by (simp add: example_defs)
  have m1: "getBody jsonBody createTodo (withBody fixedTodo)
     = ([], Inr (Some (JsonBody (JObject
          [(''_id'', JString ''Either''), (''_tag'', JString ''Right''),
           (''right'', fixedTodo)]))))"
    by (simp add: getBody_def parseBody_def effect_defs example_defs)
  have m2: "getBody jsonBody replaceTodo None
     = ([], Inr (Some (JsonBody (JObject
          [(''_id'', JString ''Either''), (''_tag'', JString ''Right''),
           (''right'', fixedTodo)]))))"
    by (simp add: getBody_def parseBody_def effect_defs example_defs)
  have m3: "getBody jsonBody createTodo (withBody (JString ''milk''))
     = ([], Inr (Some (JsonBody (JObject
          [(''_id'', JString ''Either''), (''_tag'', JString ''Left''),
           (''left'', JObject [(''_id'', JString ''ParseError''),
                               (''message'', JString ''Expected Todo'')])]))))"
    by (simp add: getBody_def parseBody_def effect_defs example_defs)
  have m4: "snd (make jsonBody createTodo (respond 201 (JObject [(''id'', JString ''1'')]))
          (withBody (JString ''milk'')))
     = Inr (Value (JObject [(''id'', JString ''1'')]))"
    by (simp add: make_defs effect_defs platform_defs example_defs)
  have l1: "RestApiClient_getBody jsonBody RestApiClient_createTodo (withBody fixedTodo)
     = ([], Inr (Some (JsonBody (JObject
          [(''_id'', JString ''Either''), (''_tag'', JString ''Right''),
           (''right'', fixedTodo)]))))"
    by (simp add: RestApiClient_getBody_def parseBody_def effect_defs example_defs)
  have l2: "RestApiClient_getBody jsonBody RestApiClient_replaceTodo None
     = ([], Inr (Some (JsonBody (JObject
          [(''_id'', JString ''Either''), (''_tag'', JString ''Right''),
           (''right'', fixedTodo)]))))"
    by (simp add: RestApiClient_getBody_def parseBody_def effect_defs example_defs)
  have l3: "snd (RestApiClient_make jsonBody RestApiClient_createTodo
          (respond 201 (JObject [(''id'', JString ''1'')])) (withBody (JString ''milk'')))
     = Inr (Value (JObject [(''id'', JString ''1'')]))"
    by (simp add: RestApiClient_make_defs effect_defs platform_defs example_defs)
  from e m1 m2 m3 m4 l1 l2 l3 show ?thesis
    by blast
qed

text \<open>
  C6. The route that a \<open>Client\<close> builds in \<open>get\<close>, \<open>post\<close>, \<open>put\<close> and
  \<open>del\<close> takes each of \<open>headers\<close> and \<open>error\<close> from the per-route
  specification when the specification has that field, and from the client's default
  (or nothing, if the client has none) otherwise, each field on its own. This holds in
  both modules.
\<close>

theorem C6_client_defaults_and_overrides:
  "(let route = (\<lambda>m.
          \<lparr>url = fromMakerUrl (spec_url spec),
           httpMethod = m,
           headers = map_option fromMakerHeaders
                       (case spec_headers spec of Absent \<Rightarrow> client_headers c | Present h \<Rightarrow> h),
           body = map_option fromMakerInput (spec_body spec),
           response = map_option fromMakerOutput (spec_response spec),
           error = map_option fromMakerError
                     (case spec_error spec of Absent \<Rightarrow> client_error c | Present e \<Rightarrow> e)\<rparr>)
    in Client_get J c spec = make J (route ''GET'') \<and>
       Client_post J c spec = make J (route ''POST'') \<and>
       Client_put J c spec = make J (route ''PUT'') \<and>
       Client_del J c spec = make J (route ''DELETE'')) \<and>
   (let route = (\<lambda>m.
          \<lparr>route_url = rspec_url rspec,
           route_method = m,
           route_headers = (case rspec_headers rspec of Absent \<Rightarrow> rclient_headers rc | Present h \<Rightarrow> h),
           route_body = rspec_body rspec,
           route_response = rspec_response rspec,
           route_error = (case rspec_error rspec of Absent \<Rightarrow> rclient_error rc | Present e \<Rightarrow> e),
           filterStatusOk = rspec_filterStatusOk rspec\<rparr>)
    in RestApiClient_Client_get J rc rspec = RestApiClient_make J (route ''GET'') \<and>
       RestApiClient_Client_post J rc rspec = RestApiClient_make J (route ''POST'') \<and>
       RestApiClient_Client_put J rc rspec = RestApiClient_make J (route ''PUT'') \<and>
       RestApiClient_Client_del J rc rspec = RestApiClient_make J (route ''DELETE''))"
proof -
  have m: "toRoute m (Client_spread c spec) =
          \<lparr>url = fromMakerUrl (spec_url spec),
           httpMethod = m,
           headers = map_option fromMakerHeaders
                       (case spec_headers spec of Absent \<Rightarrow> client_headers c | Present h \<Rightarrow> h),
           body = map_option fromMakerInput (spec_body spec),
           response = map_option fromMakerOutput (spec_response spec),
           error = map_option fromMakerError
                     (case spec_error spec of Absent \<Rightarrow> client_error c | Present e \<Rightarrow> e)\<rparr>" for m
    by (cases "spec_headers spec"; cases "spec_error spec")
      (simp_all add: toRoute_def Client_spread_def)
  have l: "RestApiClient_route m (RestApiClient_Client_spread rc rspec) =
          \<lparr>route_url = rspec_url rspec,
           route_method = m,
           route_headers = (case rspec_headers rspec of Absent \<Rightarrow> rclient_headers rc | Present h \<Rightarrow> h),
           route_body = rspec_body rspec,
           route_response = rspec_response rspec,
           route_error = (case rspec_error rspec of Absent \<Rightarrow> rclient_error rc | Present e \<Rightarrow> e),
           filterStatusOk = rspec_filterStatusOk rspec\<rparr>" for m
    by (cases "rspec_headers rspec"; cases "rspec_error rspec")
      (simp_all add: RestApiClient_route_def RestApiClient_Client_spread_def)
  show ?thesis
    unfolding Let_def Client_get_def Client_post_def Client_put_def Client_del_def
      Make_get_def Make_post_def Make_put_def Make_del_def
      RestApiClient_Client_get_def RestApiClient_Client_post_def
      RestApiClient_Client_put_def RestApiClient_Client_del_def m l
    by simp
qed

text \<open>C6 on a client with default headers and a default error codec, and a GET
  specification that overrides the error maker only.\<close>

theorem C6_client_defaults_and_overrides_witness:
  "Client_get jsonBody
     \<lparr>client_headers = Some (MakerHeadersValue [''x-api-version'' \<mapsto> ''v1'']),
      client_error = Some (MakerErrorSchema ApiError)\<rparr>
     \<lparr>spec_url = MakerUrlValue ''/todos/1'', spec_headers = Absent, spec_body = None,
      spec_response = Some (MakerOutputSchema Todo),
      spec_error = Present (Some (MakerErrorFn (\<lambda>res. JNumber (status res))))\<rparr>
   = make jsonBody
       \<lparr>url = Url_Value ''/todos/1'', httpMethod = ''GET'',
        headers = Some (Headers_Value [''x-api-version'' \<mapsto> ''v1'']), body = None,
        response = Some (Output_Schema Todo),
        error = Some (Error_Fn (\<lambda>res. JNumber (status res)))\<rparr>"
  using C6_client_defaults_and_overrides
    [of "\<lparr>spec_url = MakerUrlValue ''/todos/1'', spec_headers = Absent, spec_body = None,
          spec_response = Some (MakerOutputSchema Todo),
          spec_error = Present (Some (MakerErrorFn (\<lambda>res. JNumber (status res))))\<rparr>"
        "\<lparr>client_headers = Some (MakerHeadersValue [''x-api-version'' \<mapsto> ''v1'']),
          client_error = Some (MakerErrorSchema ApiError)\<rparr>"
        jsonBody]
  by (simp add: Let_def)

lemma startsWith_slash: "startsWith s ''/'' = (\<exists>rest. s = CHR ''/'' # rest)"
  by (cases s) (auto simp: startsWith_def)

text \<open>
  C7. While the layer is active, the transport is handed the request with its URL
  replaced by the base URL followed by the original URL when the original begins with
  \<open>/\<close>, and unchanged otherwise; and with an \<open>Authorization: Bearer\<close> header for
  the configured access token exactly when the token is present and not empty.
\<close>

theorem C7_layer_base_url_and_bearer_token:
  "(let sent =
          \<lparr>req_method = req_method req,
           req_url = (if \<exists>rest. req_url req = CHR ''/'' # rest
                      then config_url config @ req_url req
                      else req_url req),
           req_headers = (case accessToken config of
                            None \<Rightarrow> req_headers req
                          | Some token \<Rightarrow>
                              if token = [] then req_headers req
                              else (req_headers req)(''authorization'' \<mapsto> ''Bearer '' @ token)),
           req_body = req_body req\<rparr>
    in layer config client req = client sent \<and>
       RestApiClient_layer config client req = client sent)"
  by (cases req; cases "accessToken config")
    (simp_all add: Let_def layer_def RestApiClient_layer_def mapRequestInput_def bearerToken_def
      setUrl_def startsWith_slash Headers_set_def toLowerCase_Authorization)

text \<open>C7 on a relative URL with a token, and on an absolute URL with an empty token.\<close>

theorem C7_layer_base_url_and_bearer_token_witness:
  "layer \<lparr>config_url = ''https://api.example.com'', accessToken = Some ''tok''\<rparr> echo
     \<lparr>req_method = ''GET'', req_url = ''/todos'', req_headers = Map.empty, req_body = None\<rparr>
   = Inr \<lparr>status = 200,
          json = Inr (JObject [(''url'', JString ''https://api.example.com/todos''),
                               (''authorization'', JString ''Bearer tok'')])\<rparr> \<and>
   RestApiClient_layer \<lparr>config_url = ''https://api.example.com'', accessToken = Some []\<rparr> echo
     \<lparr>req_method = ''GET'', req_url = ''https://ext.example.com/x'', req_headers = Map.empty,
      req_body = None\<rparr>
   = Inr \<lparr>status = 200,
          json = Inr (JObject [(''url'', JString ''https://ext.example.com/x''),
                               (''authorization'', JNull)])\<rparr>"
  using
    C7_layer_base_url_and_bearer_token
      [of "\<lparr>req_method = ''GET'', req_url = ''/todos'', req_headers = Map.empty, req_body = None\<rparr>"
          "\<lparr>config_url = ''https://api.example.com'', accessToken = Some ''tok''\<rparr>" echo]
    C7_layer_base_url_and_bearer_token
      [of "\<lparr>req_method = ''GET'', req_url = ''https://ext.example.com/x'', req_headers = Map.empty,
            req_body = None\<rparr>"
          "\<lparr>config_url = ''https://api.example.com'', accessToken = Some []\<rparr>" echo]
  by (simp add: Let_def echo_def)

text \<open>
  C8. In the legacy module, a route with \<open>filterStatusOk\<close> on fails with the
  generic status failure of the wrapped transport whenever the transport's response
  has a status outside 200-299, and never consults its error maker.
\<close>

theorem C8_legacy_filterStatusOk:
  assumes "filterStatusOk spec = Some True"
  shows "(\<forall>req res.
            Executed req \<in> set (fst (RestApiClient_make J spec client params)) \<and>
            client req = Inr res \<and> (status res < 200 \<or> status res \<ge> 300) \<longrightarrow>
            snd (RestApiClient_make J spec client params) = Inl (ResponseError ''StatusCode'')) \<and>
         filter is_ErrorMakerConsulted (fst (RestApiClient_make J spec client params)) = []"
proof (intro conjI allI impI)
  fix req res
  assume a: "Executed req \<in> set (fst (RestApiClient_make J spec client params)) \<and>
            client req = Inr res \<and> (status res < 200 \<or> status res \<ge> 300)"
  from a RestApiClient_make_ExecutedD [of req J spec client params]
  obtain s hs b where
    "snd (RestApiClient_make_url spec params) = Inr (UrlString s)"
    "snd (RestApiClient_getHeaders spec params) = Inr hs"
    "snd (RestApiClient_getBody J spec params) = Inr b"
    "req = assemble (route_method spec) s b (ownProperties hs)"
    by blast
  with a assms show "snd (RestApiClient_make J spec client params) = Inl (ResponseError ''StatusCode'')"
    by (auto simp: RestApiClient_make_alt Let_def HttpClient_filterStatusOk_def)
next
  have "fst (RestApiClient_make_error spec res) = []" for res
    using assms by (simp add: fst_RestApiClient_make_error split: option.splits)
  then show "filter is_ErrorMakerConsulted (fst (RestApiClient_make J spec client params)) = []"
    by (rule RestApiClient_make_ErrorMakerConsulted)
qed

text \<open>C8 on the legacy POST route, which has an error codec, against a 404 response.\<close>

theorem C8_legacy_filterStatusOk_witness:
  "filterStatusOk (RestApiClient_createTodo\<lparr>filterStatusOk := Some True\<rparr>) = Some True \<and>
   RestApiClient_make jsonBody (RestApiClient_createTodo\<lparr>filterStatusOk := Some True\<rparr>)
     (respond 404 (JObject [(''message'', JString ''not found'')])) (withBody fixedTodo)
   = ([Executed \<lparr>req_method = ''POST'', req_url = ''/todos'',
                 req_headers = [''content-type'' \<mapsto> ''application/json''],
                 req_body = Some (JsonBody (JObject
                   [(''_id'', JString ''Either''), (''_tag'', JString ''Right''),
                    (''right'', fixedTodo)]))\<rparr>],
      Inl (ResponseError ''StatusCode''))"
  using C8_legacy_filterStatusOk
    [of "RestApiClient_createTodo\<lparr>filterStatusOk := Some True\<rparr>" jsonBody
        "respond 404 (JObject [(''message'', JString ''not found'')])" "withBody fixedTodo"]
  by (simp add: RestApiClient_make_defs effect_defs platform_defs example_defs)

text \<open>
  C1, as stated, has the computation fail with the decoded response body whenever a
  codec error maker is consulted. On the POST route of the examples, a 404 response
  whose body the error codec rejects makes the computation fail with the codec's
  failure instead: there is no decoded body to fail with.
\<close>

theorem C1_counterexample:
  "make jsonBody createTodo (respond 404 (JString ''Not Found'')) (withBody fixedTodo)
   = ([Executed \<lparr>req_method = ''POST'', req_url = ''/todos'',
                 req_headers = [''content-type'' \<mapsto> ''application/json''],
                 req_body = Some (JsonBody (JObject
                   [(''_id'', JString ''Either''), (''_tag'', JString ''Right''),
                    (''right'', fixedTodo)]))\<rparr>,
       ErrorMakerConsulted],
      Inl (ParseError ''Expected ApiError'')) \<and>
   error createTodo = Some (Error_Schema ApiError) \<and>
   decodeUnknown ApiError (JString ''Not Found'') = Inl (ParseError ''Expected ApiError'')"
  by (simp add: make_defs effect_defs platform_defs example_defs)

text \<open>
  C1, amended. For a route with an error maker (in the legacy module, with
  \<open>filterStatusOk\<close> not on), once the transport has answered a request with a
  response: the error maker is consulted exactly when the status is outside 200-299.
  When it is consulted, the output maker is not invoked and the computation fails: with
  the value of the custom error function applied to the response, or, for a codec, with
  the decoded body when the body reads as JSON and decodes, and with the read or decode
  failure otherwise. When the status is within 200-299 the error maker is not consulted
  and the computation ends as the output resolution does.
\<close>

theorem C1_error_maker_amended:
  "(error spec = Some getter \<and>
    Executed req \<in> set (fst (make J spec client params)) \<and> client req = Inr res \<longrightarrow>
      (ErrorMakerConsulted \<in> set (fst (make J spec client params))) =
        (status res < 200 \<or> 300 \<le> status res) \<and>
      (status res < 200 \<or> 300 \<le> status res \<longrightarrow>
         OutputMakerInvoked \<notin> set (fst (make J spec client params)) \<and>
         snd (make J spec client params) =
           Inl (case getter of
                  Error_Fn fn \<Rightarrow> Fail (fn res)
                | Error_Schema schema \<Rightarrow>
                    (case json res of
                       Inl e \<Rightarrow> e
                     | Inr j \<Rightarrow>
                         (case decodeUnknown schema j of Inl e \<Rightarrow> e | Inr v \<Rightarrow> Fail v)))) \<and>
      (200 \<le> status res \<and> status res < 300 \<longrightarrow>
         snd (make J spec client params) = snd (getResponse (response spec) res))) \<and>
   (route_error rspec = Some rgetter \<and> filterStatusOk rspec \<noteq> Some True \<and>
    Executed rreq \<in> set (fst (RestApiClient_make J rspec rclient params)) \<and>
    rclient rreq = Inr rres \<longrightarrow>
      (ErrorMakerConsulted \<in> set (fst (RestApiClient_make J rspec rclient params))) =
        (status rres < 200 \<or> 300 \<le> status rres) \<and>
      (status rres < 200 \<or> 300 \<le> status rres \<longrightarrow>
         OutputMakerInvoked \<notin> set (fst (RestApiClient_make J rspec rclient params)) \<and>
         snd (RestApiClient_make J rspec rclient params) =
           Inl (case rgetter of
                  ErrorFunc fn \<Rightarrow> Fail (fn rres)
                | ErrorSchema schema \<Rightarrow>
                    (case json rres of
                       Inl e \<Rightarrow> e
                     | Inr j \<Rightarrow>
                         (case decodeUnknown schema j of Inl e \<Rightarrow> e | Inr v \<Rightarrow> Fail v)))) \<and>
      (200 \<le> status rres \<and> status rres < 300 \<longrightarrow>
         snd (RestApiClient_make J rspec rclient params) =
           snd (RestApiClient_getResponse (route_response rspec) rres)))"
proof (intro conjI impI)
  assume a: "error spec = Some getter \<and>
    Executed req \<in> set (fst (make J spec client params)) \<and> client req = Inr res"
  then have e: "error spec = Some getter"
    and x: "Executed req \<in> set (fst (make J spec client params))"
    and r: "client req = Inr res"
    by simp_all
  note m = make_with_error_maker [OF e x r]
  show "(ErrorMakerConsulted \<in> set (fst (make J spec client params))) =
        (status res < 200 \<or> 300 \<le> status res)"
    by (rule m(1))
  show "OutputMakerInvoked \<notin> set (fst (make J spec client params))"
    if "status res < 200 \<or> 300 \<le> status res"
    using that by (rule m(2))
  show "snd (make J spec client params) =
           Inl (case getter of
                  Error_Fn fn \<Rightarrow> Fail (fn res)
                | Error_Schema schema \<Rightarrow>
                    (case json res of
                       Inl e \<Rightarrow> e
                     | Inr j \<Rightarrow>
                         (case decodeUnknown schema j of Inl e \<Rightarrow> e | Inr v \<Rightarrow> Fail v)))"
    if "status res < 200 \<or> 300 \<le> status res"
    using that by (rule m(3))
  show "snd (make J spec client params) = snd (getResponse (response spec) res)"
    if "200 \<le> status res \<and> status res < 300"
    using that by (rule m(4))
next
  assume a: "route_error rspec = Some rgetter \<and> filterStatusOk rspec \<noteq> Some True \<and>
    Executed rreq \<in> set (fst (RestApiClient_make J rspec rclient params)) \<and>
    rclient rreq = Inr rres"
  then have e: "route_error rspec = Some rgetter"
    and f: "filterStatusOk rspec \<noteq> Some True"
    and x: "Executed rreq \<in> set (fst (RestApiClient_make J rspec rclient params))"
    and r: "rclient rreq = Inr rres"
    by simp_all
  note m = RestApiClient_make_with_error_maker [OF e f x r]
  show "(ErrorMakerConsulted \<in> set (fst (RestApiClient_make J rspec rclient params))) =
        (status rres < 200 \<or> 300 \<le> status rres)"
    by (rule m(1))
  show "OutputMakerInvoked \<notin> set (fst (RestApiClient_make J rspec rclient params))"
    if "status rres < 200 \<or> 300 \<le> status rres"
    using that by (rule m(2))
  show "snd (RestApiClient_make J rspec rclient params) =
           Inl (case rgetter of
                  ErrorFunc fn \<Rightarrow> Fail (fn rres)
                | ErrorSchema schema \<Rightarrow>
                    (case json rres of
                       Inl e \<Rightarrow> e
                     | Inr j \<Rightarrow>
                         (case decodeUnknown schema j of Inl e \<Rightarrow> e | Inr v \<Rightarrow> Fail v)))"
    if "status rres < 200 \<or> 300 \<le> status rres"
    using that by (rule m(3))
  show "snd (RestApiClient_make J rspec rclient params) =
           snd (RestApiClient_getResponse (route_response rspec) rres)"
    if "200 \<le> status rres \<and> status rres < 300"
    using that by (rule m(4))
qed

text \<open>C1 amended, on the POST route against a 404 response with a matching error body
  (modular tree) and against a 201 response (legacy module).\<close>

theorem C1_error_maker_amended_witness:
  "(error createTodo = Some (Error_Schema ApiError) \<and>
    Executed \<lparr>req_method = ''POST'', req_url = ''/todos'',
              req_headers = [''content-type'' \<mapsto> ''application/json''],
              req_body = Some (JsonBody (JObject
                   [(''_id'', JString ''Either''), (''_tag'', JString ''Right''),
                    (''right'', fixedTodo)]))\<rparr>
      \<in> set (fst (make jsonBody createTodo
                      (respond 404 (JObject [(''message'', JString ''not found'')]))
                      (withBody fixedTodo))) \<and>
    ErrorMakerConsulted
      \<in> set (fst (make jsonBody createTodo
                      (respond 404 (JObject [(''message'', JString ''not found'')]))
                      (withBody fixedTodo))) \<and>
    OutputMakerInvoked
      \<notin> set (fst (make jsonBody createTodo
                      (respond 404 (JObject [(''message'', JString ''not found'')]))
                      (withBody fixedTodo))) \<and>
    snd (make jsonBody createTodo
           (respond 404 (JObject [(''message'', JString ''not found'')]))
           (withBody fixedTodo))
      = Inl (Fail (JObject [(''message'', JString ''not found'')]))) \<and>
   (route_error RestApiClient_createTodo = Some (ErrorSchema ApiError) \<and>
    filterStatusOk RestApiClient_createTodo \<noteq> Some True \<and>
    Executed \<lparr>req_method = ''POST'', req_url = ''/todos'',
              req_headers = [''content-type'' \<mapsto> ''application/json''],
              req_body = Some (JsonBody (JObject
                   [(''_id'', JString ''Either''), (''_tag'', JString ''Right''),
                    (''right'', fixedTodo)]))\<rparr>
      \<in> set (fst (RestApiClient_make jsonBody RestApiClient_createTodo
                      (respond 201 (JObject [(''id'', JString ''1'')]))
                      (withBody fixedTodo))) \<and>
    ErrorMakerConsulted
      \<notin> set (fst (RestApiClient_make jsonBody RestApiClient_createTodo
                      (respond 201 (JObject [(''id'', JString ''1'')]))
                      (withBody fixedTodo))) \<and>
    snd (RestApiClient_make jsonBody RestApiClient_createTodo
           (respond 201 (JObject [(''id'', JString ''1'')]))
           (withBody fixedTodo))
      = Inr (Value (JObject [(''id'', JString ''1'')])))"
proof -
  let ?req = "\<lparr>req_method = ''POST'', req_url = ''/todos'',
              req_headers = [''content-type'' \<mapsto> ''application/json''],
              req_body = Some (JsonBody (JObject
                   [(''_id'', JString ''Either''), (''_tag'', JString ''Right''),
                    (''right'', fixedTodo)]))\<rparr>"
  let ?client = "respond 404 (JObject [(''message'', JString ''not found'')])
                   :: (string, Headers) HttpClient"
  let ?res = "\<lparr>status = 404, json = Inr (JObject [(''message'', JString ''not found'')])\<rparr>"
  let ?rreq = "\<lparr>req_method = ''POST'', req_url = ''/todos'',
              req_headers = [''content-type'' \<mapsto> ''application/json''],
              req_body = Some (JsonBody (JObject
                   [(''_id'', JString ''Either''), (''_tag'', JString ''Right''),
                    (''right'', fixedTodo)]))\<rparr>"
  let ?rclient = "respond 201 (JObject [(''id'', JString ''1'')])
                    :: (string, Headers) HttpClient"
  let ?rres = "\<lparr>status = 201, json = Inr (JObject [(''id'', JString ''1'')])\<rparr>"
  have hm: "error createTodo = Some (Error_Schema ApiError) \<and>
      Executed ?req \<in> set (fst (make jsonBody createTodo ?client (withBody fixedTodo))) \<and>
      ?client ?req = Inr ?res"
    by (simp add: make_defs effect_defs platform_defs example_defs)
  have hl: "route_error RestApiClient_createTodo = Some (ErrorSchema ApiError) \<and>
      filterStatusOk RestApiClient_createTodo \<noteq> Some True \<and>
      Executed ?rreq
        \<in> set (fst (RestApiClient_make jsonBody RestApiClient_createTodo ?rclient
                        (withBody fixedTodo))) \<and>
      ?rclient ?rreq = Inr ?rres"
    by (simp add: RestApiClient_make_defs effect_defs platform_defs example_defs)
  note c = C1_error_maker_amended
    [where spec = createTodo and getter = "Error_Schema ApiError" and req = ?req
       and J = jsonBody and client = ?client and params = "withBody fixedTodo" and res = ?res
       and rspec = RestApiClient_createTodo and rgetter = "ErrorSchema ApiError"
       and rreq = ?rreq and rclient = ?rclient and rres = ?rres]
  from c hm have m: "ErrorMakerConsulted
        \<in> set (fst (make jsonBody createTodo ?client (withBody fixedTodo))) \<and>
      OutputMakerInvoked
        \<notin> set (fst (make jsonBody createTodo ?client (withBody fixedTodo))) \<and>
      snd (make jsonBody createTodo ?client (withBody fixedTodo))
        = Inl (Fail (JObject [(''message'', JString ''not found'')]))"
    by (simp add: ApiError_def)
  from c hl have l: "ErrorMakerConsulted
        \<notin> set (fst (RestApiClient_make jsonBody RestApiClient_createTodo ?rclient
                        (withBody fixedTodo))) \<and>
      snd (RestApiClient_make jsonBody RestApiClient_createTodo ?rclient (withBody fixedTodo))
        = snd (RestApiClient_getResponse (route_response RestApiClient_createTodo) ?rres)"
    by simp
  have g: "snd (RestApiClient_getResponse (route_response RestApiClient_createTodo) ?rres)
      = Inr (Value (JObject [(''id'', JString ''1'')]))"
    by (simp add: RestApiClient_make_defs effect_defs example_defs)
  from hm hl m l g show ?thesis
    by simp
qed

text \<open>
  C2, as stated, has no route without an error maker fail on the status alone. A legacy
  route without an error maker and with \<open>filterStatusOk\<close> on fails on a status-500
  response whose body matches the output codec.
\<close>

theorem C2_counterexample:
  "route_error (RestApiClient_listTodos\<lparr>filterStatusOk := Some True\<rparr>) = None \<and>
   decodeUnknown Todo (JObject [(''id'', JString ''1'')]) = Inr (JObject [(''id'', JString ''1'')]) \<and>
   RestApiClient_make jsonBody (RestApiClient_listTodos\<lparr>filterStatusOk := Some True\<rparr>)
     (respond 500 (JObject [(''id'', JString ''1'')])) None
   = ([Executed \<lparr>req_method = ''GET'', req_url = ''/todos'',
                 req_headers = Map.empty, req_body = None\<rparr>],
      Inl (ResponseError ''StatusCode''))"
  by (simp add: RestApiClient_make_defs effect_defs platform_defs example_defs
      RestApiClient_listTodos_def)

text \<open>
  C2, amended. For a route with no error maker (in the legacy module, with
  \<open>filterStatusOk\<close> not on), once the transport has answered a request with a
  response, no error maker is consulted and the computation ends as the output
  resolution on that response does, whatever the status: when the output maker is a
  codec that decodes the body, the computation succeeds with the decoded value.
\<close>

theorem C2_no_error_maker_amended:
  "(error spec = None \<and>
    Executed req \<in> set (fst (make J spec client params)) \<and> client req = Inr res \<longrightarrow>
      ErrorMakerConsulted \<notin> set (fst (make J spec client params)) \<and>
      snd (make J spec client params) = snd (getResponse (response spec) res) \<and>
      (\<forall>schema j v.
         response spec = Some (Output_Schema schema) \<and> json res = Inr j \<and>
         decodeUnknown schema j = Inr v \<longrightarrow>
         snd (make J spec client params) = Inr (Value v))) \<and>
   (route_error rspec = None \<and> filterStatusOk rspec \<noteq> Some True \<and>
    Executed rreq \<in> set (fst (RestApiClient_make J rspec rclient params)) \<and>
    rclient rreq = Inr rres \<longrightarrow>
      ErrorMakerConsulted \<notin> set (fst (RestApiClient_make J rspec rclient params)) \<and>
      snd (RestApiClient_make J rspec rclient params) =
        snd (RestApiClient_getResponse (route_response rspec) rres) \<and>
      (\<forall>schema j v.
         route_response rspec = Some (OutputSchema schema) \<and> json rres = Inr j \<and>
         decodeUnknown schema j = Inr v \<longrightarrow>
         snd (RestApiClient_make J rspec rclient params) = Inr (Value v)))"
proof (intro conjI impI allI)
  assume a: "error spec = None \<and>
    Executed req \<in> set (fst (make J spec client params)) \<and> client req = Inr res"
  then have e: "error spec = None"
    and x: "Executed req \<in> set (fst (make J spec client params))"
    and r: "client req = Inr res"
    by simp_all
  note m = make_without_error_maker [OF e x r]
  show "ErrorMakerConsulted \<notin> set (fst (make J spec client params))"
    by (rule m(2))
  show "snd (make J spec client params) = snd (getResponse (response spec) res)"
    by (rule m(1))
  show "snd (make J spec client params) = Inr (Value v)"
    if "response spec = Some (Output_Schema schema) \<and> json res = Inr j \<and>
         decodeUnknown schema j = Inr v" for schema j v
    using that by (simp add: m(1) snd_getResponse_Schema)
next
  assume a: "route_error rspec = None \<and> filterStatusOk rspec \<noteq> Some True \<and>
    Executed rreq \<in> set (fst (RestApiClient_make J rspec rclient params)) \<and>
    rclient rreq = Inr rres"
  then have e: "route_error rspec = None"
    and f: "filterStatusOk rspec \<noteq> Some True"
    and x: "Executed rreq \<in> set (fst (RestApiClient_make J rspec rclient params))"
    and r: "rclient rreq = Inr rres"
    by simp_all
  note m = RestApiClient_make_without_error_maker [OF e f x r]
  show "ErrorMakerConsulted \<notin> set (fst (RestApiClient_make J rspec rclient params))"
    by (rule m(2))
  show "snd (RestApiClient_make J rspec rclient params) =
        snd (RestApiClient_getResponse (route_response rspec) rres)"
    by (rule m(1))
  show "snd (RestApiClient_make J rspec rclient params) = Inr (Value v)"
    if "route_response rspec = Some (OutputSchema schema) \<and> json rres = Inr j \<and>
         decodeUnknown schema j = Inr v" for schema j v
    using that by (simp add: m(1) snd_RestApiClient_getResponse_Schema)
qed

text \<open>C2 amended, on a GET route with an output codec and no error maker, against a
  status-500 response whose body decodes, in both modules.\<close>

theorem C2_no_error_maker_amended_witness:
  "(error listTodos = None \<and>
    Executed \<lparr>req_method = ''GET'', req_url = ''/todos'', req_headers = Map.empty,
              req_body = None\<rparr>
      \<in> set (fst (make jsonBody listTodos (respond 500 (JObject [(''id'', JString ''1'')])) None)) \<and>
    snd (make jsonBody listTodos (respond 500 (JObject [(''id'', JString ''1'')])) None)
      = Inr (Value (JObject [(''id'', JString ''1'')]))) \<and>
   (route_error RestApiClient_listTodos = None \<and>
    filterStatusOk RestApiClient_listTodos \<noteq> Some True \<and>
    Executed \<lparr>req_method = ''GET'', req_url = ''/todos'',
              req_headers = Map.empty, req_body = None\<rparr>
      \<in> set (fst (RestApiClient_make jsonBody RestApiClient_listTodos
                      (respond 500 (JObject [(''id'', JString ''1'')])) None)) \<and>
    snd (RestApiClient_make jsonBody RestApiClient_listTodos
           (respond 500 (JObject [(''id'', JString ''1'')])) None)
      = Inr (Value (JObject [(''id'', JString ''1'')])))"
proof -
  let ?req = "\<lparr>req_method = ''GET'', req_url = ''/todos'', req_headers = Map.empty,
              req_body = None\<rparr> :: Request"
  let ?client = "respond 500 (JObject [(''id'', JString ''1'')]) :: (string, Headers) HttpClient"
  let ?rreq = "\<lparr>req_method = ''GET'', req_url = ''/todos'',
              req_headers = Map.empty, req_body = None\<rparr>"
  let ?rclient = "respond 500 (JObject [(''id'', JString ''1'')])
                    :: (string, Headers) HttpClient"
  let ?res = "\<lparr>status = 500, json = Inr (JObject [(''id'', JString ''1'')])\<rparr>"
  have hm: "error listTodos = None \<and>
      Executed ?req \<in> set (fst (make jsonBody listTodos ?client None)) \<and>
      ?client ?req = Inr ?res"
    by (simp add: make_defs effect_defs platform_defs example_defs listTodos_def)
  have hl: "route_error RestApiClient_listTodos = None \<and>
      filterStatusOk RestApiClient_listTodos \<noteq> Some True \<and>
      Executed ?rreq
        \<in> set (fst (RestApiClient_make jsonBody RestApiClient_listTodos ?rclient None)) \<and>
      ?rclient ?rreq = Inr ?res"
    by (simp add: RestApiClient_make_defs effect_defs platform_defs example_defs
        RestApiClient_listTodos_def)
  have d: "response listTodos = Some (Output_Schema Todo) \<and>
      route_response RestApiClient_listTodos = Some (OutputSchema Todo) \<and>
      json ?res = Inr (JObject [(''id'', JString ''1'')]) \<and>
      decodeUnknown Todo (JObject [(''id'', JString ''1'')]) = Inr (JObject [(''id'', JString ''1'')])"
    by (simp add: listTodos_def RestApiClient_listTodos_def Todo_def)
  note c = C2_no_error_maker_amended
    [where spec = listTodos and req = ?req and J = jsonBody and client = ?client
       and params = None and res = ?res and rspec = RestApiClient_listTodos
       and rreq = ?rreq and rclient = ?rclient and rres = ?res]
  from c hm d have m: "snd (make jsonBody listTodos ?client None)
        = Inr (Value (JObject [(''id'', JString ''1'')]))"
    by blast
  from c hl d have l: "snd (RestApiClient_make jsonBody RestApiClient_listTodos ?rclient None)
        = Inr (Value (JObject [(''id'', JString ''1'')]))"
    by blast
  from hm hl m l show ?thesis
    by simp
qed

end
